(* ===== verification/Hue_Prelude.thy ===== *)
theory Hue_Prelude
  imports Complex_Main "HOL-Library.Sublist" "HOL-Library.Monad_Syntax"
begin

text \<open>
  Shared vocabulary of the development: the names of the model's basic types, the
  collections of rewrite rules the component theories contribute to, and generic
  lemmas on rationals, lists and maps that several components use.
\<close>

section \<open>Rule collections\<close>

named_theorems js_simps
  "evaluation rules of the JavaScript primitives (numbers, strings, arrays)"
named_theorems guard_simps
  "how the handlers' guard chains evaluate on each kind of configuration"

section \<open>Names of the model's basic types\<close>

type_synonym ctx = string
  \<comment> \<open>the Stream Deck context string of one key (one action instance)\<close>
type_synonym addr = nat
  \<comment> \<open>the identity of a JavaScript object of the topology cache\<close>
type_synonym xy = "rat \<times> rat"
  \<comment> \<open>a chromaticity pair as returned by \<open>Bridge.hex2xy\<close>\<close>

section \<open>Rounding of rational numerals\<close>

text \<open>
  \<open>Math.round\<close> is modelled by \<^const>\<open>round\<close> on \<^typ>\<open>rat\<close>. These rules let
  \<open>simp\<close> evaluate it on a closed fraction, as witnesses need.
\<close>

lemma round_rat_numeral_divide [simp, js_simps]:
  "round ((numeral a :: rat) / numeral b) = (2 * numeral a + numeral b) div (2 * numeral b)"
proof -
  have "(numeral a :: rat) / numeral b + 1 / 2 = of_int (2 * numeral a + numeral b) / of_int (2 * numeral b)"
    by (simp add: field_simps)
  then show ?thesis by (simp only: round_def floor_divide_of_int_eq)
qed

lemma round_rat_mono:
  "(x :: rat) \<le> y \<Longrightarrow> round x \<le> round y"
  by (simp add: round_def floor_mono)

lemma round_rat_bounds:
  assumes "of_int lo \<le> (x :: rat)" and "x \<le> of_int hi"
  shows "lo \<le> round x \<and> round x \<le> hi"
proof -
  have "round (of_int lo :: rat) \<le> round x" using assms(1) by (rule round_rat_mono)
  moreover have "round x \<le> round (of_int hi :: rat)" using assms(2) by (rule round_rat_mono)
  ultimately show ?thesis by simp
qed

section \<open>Lists\<close>

lemma sublist_singleton: "sublist [c] s \<longleftrightarrow> c \<in> set s"
  by (simp add: sublist_def in_set_conv_decomp)

lemma dropWhile_none: "\<forall>x\<in>set xs. \<not> P x \<Longrightarrow> dropWhile P xs = xs"
  by (induction xs) auto

section \<open>Sums\<close>

text \<open>Handlers return \<open>error + result\<close>; these let \<open>simp\<close> look through a relabelling.\<close>

lemma map_sum_eq_Inr_iff [simp]: "map_sum f g x = Inr y \<longleftrightarrow> (\<exists>z. x = Inr z \<and> y = g z)"
  by (cases x) auto

lemma map_sum_eq_Inl_iff [simp]: "map_sum f g x = Inl y \<longleftrightarrow> (\<exists>z. x = Inl z \<and> y = f z)"
  by (cases x) auto

section \<open>Modular arithmetic\<close>

text \<open>Stepping round a ring of \<open>n\<close> positions from \<open>i\<close> reaches every position within \<open>n\<close> steps.\<close>

lemma mod_offset_hits:
  assumes "i < n" and "j < (n::nat)"
  shows "\<exists>k < n. (i + k) mod n = j"
proof -
  have "(i + (j + n - i) mod n) mod n = (i + (j + n - i)) mod n" by (simp add: mod_add_right_eq)
  also have "i + (j + n - i) = j + n" using assms(1) by simp
  finally have "(i + (j + n - i) mod n) mod n = j" using assms(2) by simp
  moreover have "(j + n - i) mod n < n" using assms(1) by simp
  ultimately show ?thesis by blast
qed

end
