(* ===== verification/JS_Semantics.thy ===== *)
theory JS_Semantics
  imports Hue_Prelude
begin

text \<open>
  The JavaScript primitives the two action handlers rely on, as the ECMAScript
  specification defines them: numbers with \<open>NaN\<close> and the infinities, the
  arithmetic and \<open>Math.round\<close> the colour conversions use, the implicit conversion
  \<open>ToNumber\<close> of a string (\<open>"50" / 100.0\<close>), \<open>String.prototype.indexOf\<close>,
  \<open>String.prototype.charAt\<close>, reading an array element, and the \<open>TypeError\<close>
  raised by reading a property of \<open>undefined\<close> or by the \<open>in\<close> operator on
  \<open>null\<close>, with \<open>Number.isInteger\<close> to
  state what \<open>Math.round\<close> yields. Finite numbers are exact rationals: IEEE-754
  rounding of intermediate results is not modelled.
\<close>

section \<open>Numbers\<close>

datatype js_number = Num rat | PosInf | NegInf | NaN

fun js_neg :: "js_number \<Rightarrow> js_number" where
  "js_neg (Num a) = Num (- a)"
| "js_neg PosInf = NegInf"
| "js_neg NegInf = PosInf"
| "js_neg NaN = NaN"

text \<open>Addition: \<open>NaN\<close> absorbs, opposite infinities give \<open>NaN\<close>.\<close>

fun js_add :: "js_number \<Rightarrow> js_number \<Rightarrow> js_number" where
  "js_add (Num a) (Num b) = Num (a + b)"
| "js_add NaN _ = NaN"
| "js_add _ NaN = NaN"
| "js_add PosInf NegInf = NaN"
| "js_add NegInf PosInf = NaN"
| "js_add PosInf _ = PosInf"
| "js_add NegInf _ = NegInf"
| "js_add _ PosInf = PosInf"
| "js_add _ NegInf = NegInf"

definition js_sub :: "js_number \<Rightarrow> js_number \<Rightarrow> js_number" where
  "js_sub x y = js_add x (js_neg y)"

text \<open>Multiplication: zero times an infinity is \<open>NaN\<close>; otherwise signs multiply.\<close>

fun js_mul :: "js_number \<Rightarrow> js_number \<Rightarrow> js_number" where
  "js_mul (Num a) (Num b) = Num (a * b)"
| "js_mul NaN _ = NaN"
| "js_mul _ NaN = NaN"
| "js_mul (Num a) y = (if a = 0 then NaN else if 0 < a then y else js_neg y)"
| "js_mul x (Num b) = (if b = 0 then NaN else if 0 < b then x else js_neg x)"
| "js_mul PosInf y = y"
| "js_mul NegInf y = js_neg y"

text \<open>
  Division. A zero divisor is taken as \<open>+0\<close> (the handlers only divide by the
  constants \<open>100\<close> and \<open>4500\<close>).
\<close>

fun js_div :: "js_number \<Rightarrow> js_number \<Rightarrow> js_number" where
  "js_div (Num a) (Num b) =
     (if b = 0 then (if a = 0 then NaN else if 0 < a then PosInf else NegInf)
      else Num (a / b))"
| "js_div NaN _ = NaN"
| "js_div _ NaN = NaN"
| "js_div (Num a) _ = Num 0"
| "js_div x (Num b) = (if b < 0 then js_neg x else x)"
| "js_div _ _ = NaN"

text \<open>\<open>Math.round\<close>: the nearest integer, halves rounded towards \<open>+\<infinity>\<close>.\<close>

fun js_round :: "js_number \<Rightarrow> js_number" where
  "js_round (Num a) = Num (of_int (round a))"
| "js_round x = x"

text \<open>\<open>Number.isInteger\<close>: a finite number with no fractional part.\<close>

definition js_is_integer :: "js_number \<Rightarrow> bool" where
  "js_is_integer x = (case x of Num q \<Rightarrow> of_int (floor q) = q | _ \<Rightarrow> False)"

section \<open>Strings\<close>

text \<open>
  \<open>s.indexOf(pat)\<close>: the first position at which \<open>pat\<close> occurs in \<open>s\<close>,
  or \<open>-1\<close>.
\<close>

fun index_of_from :: "string \<Rightarrow> string \<Rightarrow> nat \<Rightarrow> int" where
  "index_of_from pat [] i = (if pat = [] then int i else -1)"
| "index_of_from pat (c # cs) i =
     (if prefix pat (c # cs) then int i else index_of_from pat cs (Suc i))"

definition index_of :: "string \<Rightarrow> string \<Rightarrow> int" where
  "index_of s pat = index_of_from pat s 0"

text \<open>\<open>s.charAt(i)\<close>: the one-character string at \<open>i\<close>, or the empty string.\<close>

definition char_at :: "string \<Rightarrow> nat \<Rightarrow> string" where
  "char_at s i = (if i < length s then [s ! i] else [])"

text \<open>\<open>a[i]\<close> on an array: the element, or \<open>undefined\<close> (\<^const>\<open>None\<close>).\<close>

definition js_nth :: "'a list \<Rightarrow> int \<Rightarrow> 'a option" where
  "js_nth xs i = (if 0 \<le> i \<and> i < int (length xs) then Some (xs ! nat i) else None)"

text \<open>An argument a function may receive: \<open>undefined\<close>, \<open>null\<close> or an object.\<close>

datatype 'a js_arg = Undefined | Null | Obj 'a

text \<open>Reading property \<open>p\<close> of \<open>undefined\<close> throws a \<open>TypeError\<close>.\<close>

datatype js_error = TypeError string

text \<open>
  \<open>p in v\<close>: the right operand must be an object; for \<open>undefined\<close> and \<open>null\<close>
  the operator throws a \<open>TypeError\<close> before any property is looked up.
\<close>

definition js_in_operand :: "'a js_arg \<Rightarrow> js_error + 'a" where
  "js_in_operand v = (case v of Obj x \<Rightarrow> Inr x | _ \<Rightarrow> Inl (TypeError ''in''))"

section \<open>ToNumber on strings\<close>

text \<open>
  The grammar \<open>StringNumericLiteral\<close> of ECMAScript: surrounding white space is
  ignored, the empty string is \<open>0\<close>, then an optionally signed decimal literal
  (digits with an optional fraction and exponent, or \<open>Infinity\<close>) or an unsigned
  \<open>0x\<close>/\<open>0o\<close>/\<open>0b\<close> integer; anything else is \<open>NaN\<close>. White space is
  the ASCII part of the grammar's \<open>StrWhiteSpaceChar\<close>.
\<close>

definition js_ws :: "char \<Rightarrow> bool" where
  "js_ws c \<longleftrightarrow> c \<in> set [CHR 0x09, CHR 0x0A, CHR 0x0B, CHR 0x0C, CHR 0x0D, CHR 0x20]"

definition trim_ws :: "string \<Rightarrow> string" where
  "trim_ws s = rev (dropWhile js_ws (rev (dropWhile js_ws s)))"

definition digit_of :: "nat \<Rightarrow> char \<Rightarrow> nat option" where
  "digit_of r c =
     (let k = of_char c :: nat;
          d = (if 48 \<le> k \<and> k \<le> 57 then k - 48
               else if 97 \<le> k \<and> k \<le> 122 then k - 87
               else if 65 \<le> k \<and> k \<le> 90 then k - 55 else r)
      in if d < r then Some d else None)"

fun digits_acc :: "nat \<Rightarrow> nat \<Rightarrow> string \<Rightarrow> nat option" where
  "digits_acc r acc [] = Some acc"
| "digits_acc r acc (c # cs) =
     (case digit_of r c of None \<Rightarrow> None | Some d \<Rightarrow> digits_acc r (r * acc + d) cs)"

definition radix_value :: "nat \<Rightarrow> string \<Rightarrow> nat option" where
  "radix_value r s = (if s = [] then None else digits_acc r 0 s)"

definition mantissa_value :: "string \<Rightarrow> rat option" where
  "mantissa_value m =
     (let ip = takeWhile (\<lambda>c. c \<noteq> CHR ''.'') m;
          rest = dropWhile (\<lambda>c. c \<noteq> CHR ''.'') m
      in if rest = [] then map_option of_nat (radix_value 10 ip)
         else (let fp = tl rest in
           if ip = [] \<and> fp = [] then None
           else do {
             i \<leftarrow> (if ip = [] then Some 0 else radix_value 10 ip);
             f \<leftarrow> (if fp = [] then Some 0 else radix_value 10 fp);
             Some (of_nat i + of_nat f / 10 ^ length fp)
           }))"

definition exponent_value :: "string \<Rightarrow> int option" where
  "exponent_value e =
     (case e of
        [] \<Rightarrow> None
      | c # ds \<Rightarrow>
          (if c = CHR ''+'' then map_option int (radix_value 10 ds)
           else if c = CHR ''-'' then map_option (\<lambda>n. - int n) (radix_value 10 ds)
           else map_option int (radix_value 10 e)))"

definition scale10 :: "rat \<Rightarrow> int \<Rightarrow> rat" where
  "scale10 x k = (if 0 \<le> k then x * 10 ^ nat k else x / 10 ^ nat (- k))"

definition unsigned_decimal :: "string \<Rightarrow> js_number option" where
  "unsigned_decimal s =
     (if s = ''Infinity'' then Some PosInf
      else (let m = takeWhile (\<lambda>c. c \<noteq> CHR ''e'' \<and> c \<noteq> CHR ''E'') s;
                e = dropWhile (\<lambda>c. c \<noteq> CHR ''e'' \<and> c \<noteq> CHR ''E'') s
            in if e = [] then map_option Num (mantissa_value m)
               else do {
                 x \<leftarrow> mantissa_value m;
                 k \<leftarrow> exponent_value (tl e);
                 Some (Num (scale10 x k))
               }))"

definition decimal_literal :: "string \<Rightarrow> js_number option" where
  "decimal_literal s =
     (case s of
        [] \<Rightarrow> None
      | c # cs \<Rightarrow>
          (if c = CHR ''+'' then unsigned_decimal cs
           else if c = CHR ''-'' then map_option js_neg (unsigned_decimal cs)
           else unsigned_decimal s))"

definition radix_prefix :: "string \<Rightarrow> nat option" where
  "radix_prefix s =
     (if take 2 s \<in> {''0x'', ''0X''} then Some 16
      else if take 2 s \<in> {''0o'', ''0O''} then Some 8
      else if take 2 s \<in> {''0b'', ''0B''} then Some 2
      else None)"

definition numeric_literal :: "string \<Rightarrow> js_number option" where
  "numeric_literal s =
     (case radix_prefix s of
        Some r \<Rightarrow> map_option (\<lambda>n. Num (of_nat n)) (radix_value r (drop 2 s))
      | None \<Rightarrow> decimal_literal s)"

definition to_number :: "string \<Rightarrow> js_number" where
  "to_number s =
     (let t = trim_ws s in
      if t = [] then Num 0
      else (case numeric_literal t of None \<Rightarrow> NaN | Some v \<Rightarrow> v))"

lemmas to_number_eval [js_simps] =
  to_number_def trim_ws_def js_ws_def numeric_literal_def radix_prefix_def decimal_literal_def
  unsigned_decimal_def mantissa_value_def radix_value_def digit_of_def exponent_value_def scale10_def

section \<open>Lemmas\<close>

subsection \<open>indexOf against the contiguous-sublist relation\<close>

lemma index_of_from_found:
  "index_of_from pat s i \<noteq> -1 \<longleftrightarrow> sublist pat s"
proof (induction pat s i rule: index_of_from.induct)
  case (1 pat i)
  then show ?case by simp
next
  case (2 pat c cs i)
  then show ?case by (auto simp: sublist_Cons_right)
qed

lemma index_of_found: "index_of s pat \<noteq> -1 \<longleftrightarrow> sublist pat s"
  by (simp add: index_of_def index_of_from_found)

lemma index_of_char: "index_of s [c] \<noteq> -1 \<longleftrightarrow> c \<in> set s"
  by (simp add: index_of_found sublist_singleton)

lemma char_at_0_eq: "char_at s 0 = [c] \<longleftrightarrow> s \<noteq> [] \<and> hd s = c"
  by (cases s) (simp_all add: char_at_def)

lemma js_nth_Some: "js_nth xs i = Some x \<longleftrightarrow> 0 \<le> i \<and> i < int (length xs) \<and> xs ! nat i = x"
  by (auto simp: js_nth_def)

lemma js_round_integer: "js_is_integer (js_round x) \<or> js_round x \<in> {NaN, PosInf, NegInf}"
  by (cases x) (simp_all add: js_is_integer_def)

end
