(* ===== verification/Color_Codec.thy ===== *)
theory Color_Codec
  imports JS_Semantics
begin

text \<open>
  The two colour-temperature conversions of the actions, written over JavaScript
  numbers exactly as the source writes them: the colour action's slider position
  (a percentage string, \<open>colorAction.js\<close> lines 99--103) and the cycle action's
  Kelvin string (\<open>cycleAction.js\<close> lines 106--116), each mapped linearly onto the
  mired range 153--500 and rounded by \<open>Math.round\<close>. The hex-to-XY conversion
  \<open>Bridge.hex2xy\<close> belongs to the bridge library, which is not part of the
  sources; the handlers take it as a parameter.

  The lemmas give each conversion's closed form on a finite input, its value on
  \<open>NaN\<close> and the infinities, its range on the nominal input interval, its
  and its monotonicity.
\<close>

section \<open>Definitions\<close>

definition mired_min :: js_number where
  "mired_min = Num 153"

definition mired_max :: js_number where
  "mired_max = Num 500"

definition kelvin_min :: js_number where
  "kelvin_min = Num 2000"

definition kelvin_max :: js_number where
  "kelvin_max = Num 6500"

text \<open>\<open>Math.round(inSettings.color / 100.0 * (max - min) + min)\<close>\<close>

definition percent_to_mired :: "string \<Rightarrow> js_number" where
  "percent_to_mired color =
     js_round (js_add (js_mul (js_div (to_number color) (Num 100)) (js_sub mired_max mired_min))
                      mired_min)"

text \<open>
  \<open>percentage = (colors[i] - minK) / (maxK - minK)\<close>,
  \<open>invertedPercentage = -1 * (percentage - 1.0)\<close>,
  \<open>Math.round(invertedPercentage * (max - min) + min)\<close>
\<close>

definition kelvin_to_mired :: "string \<Rightarrow> js_number" where
  "kelvin_to_mired c =
     (let percentage = js_div (js_sub (to_number c) kelvin_min) (js_sub kelvin_max kelvin_min);
          inverted = js_mul (Num (-1)) (js_sub percentage (Num 1))
      in js_round (js_add (js_mul inverted (js_sub mired_max mired_min)) mired_min))"

lemmas codec_consts [js_simps] = mired_min_def mired_max_def kelvin_min_def kelvin_max_def

section \<open>Closed forms and special values\<close>

lemma percent_to_mired_Num:
  "to_number c = Num p \<Longrightarrow> percent_to_mired c = Num (of_int (round (p / 100 * 347 + 153)))"
  by (simp add: percent_to_mired_def js_sub_def codec_consts)

lemma percent_to_mired_NaN: "to_number c = NaN \<Longrightarrow> percent_to_mired c = NaN"
  by (simp add: percent_to_mired_def js_sub_def codec_consts)

lemma percent_to_mired_PosInf: "to_number c = PosInf \<Longrightarrow> percent_to_mired c = PosInf"
  by (simp add: percent_to_mired_def js_sub_def codec_consts)

lemma percent_to_mired_NegInf: "to_number c = NegInf \<Longrightarrow> percent_to_mired c = NegInf"
  by (simp add: percent_to_mired_def js_sub_def codec_consts)

lemma kelvin_to_mired_Num:
  "to_number c = Num k \<Longrightarrow>
   kelvin_to_mired c = Num (of_int (round ((6500 - k) / 4500 * 347 + 153)))"
  by (simp add: kelvin_to_mired_def js_sub_def codec_consts algebra_simps diff_divide_distrib)

lemma kelvin_to_mired_NaN: "to_number c = NaN \<Longrightarrow> kelvin_to_mired c = NaN"
  by (simp add: kelvin_to_mired_def js_sub_def codec_consts)

lemma kelvin_to_mired_PosInf: "to_number c = PosInf \<Longrightarrow> kelvin_to_mired c = NegInf"
  by (simp add: kelvin_to_mired_def js_sub_def codec_consts)

lemma kelvin_to_mired_NegInf: "to_number c = NegInf \<Longrightarrow> kelvin_to_mired c = PosInf"
  by (simp add: kelvin_to_mired_def js_sub_def codec_consts)

section \<open>Range and monotonicity\<close>

lemma percent_round_range:
  "0 \<le> (p::rat) \<Longrightarrow> p \<le> 100 \<Longrightarrow>
   153 \<le> round (p / 100 * 347 + 153) \<and> round (p / 100 * 347 + 153) \<le> 500"
  by (rule round_rat_bounds) simp_all

lemma kelvin_round_range:
  "2000 \<le> (k::rat) \<Longrightarrow> k \<le> 6500 \<Longrightarrow>
   153 \<le> round ((6500 - k) / 4500 * 347 + 153) \<and> round ((6500 - k) / 4500 * 347 + 153) \<le> 500"
  by (rule round_rat_bounds) simp_all

lemma percent_round_mono:
  "(p::rat) \<le> q \<Longrightarrow> round (p / 100 * 347 + 153) \<le> round (q / 100 * 347 + 153)"
  by (rule round_rat_mono) (simp add: divide_right_mono)

lemma kelvin_round_antimono:
  "(k::rat) \<le> l \<Longrightarrow> round ((6500 - l) / 4500 * 347 + 153) \<le> round ((6500 - k) / 4500 * 347 + 153)"
  by (rule round_rat_mono) (simp add: divide_right_mono)

section \<open>Properties\<close>

text \<open>
  C24: a slider position that reads as a number in \<open>[0, 100]\<close> is converted to an
  integral mired value in \<open>[153, 500]\<close>, and the conversion is monotone: a larger
  position never gives a smaller mired value.
\<close>

theorem percent_to_mired_range_mono:
  assumes "to_number c = Num p" and "0 \<le> p" and "p \<le> 100"
    and "to_number d = Num q" and "p \<le> q"
  shows "\<exists>m m'. percent_to_mired c = Num (of_int m) \<and> percent_to_mired d = Num (of_int m') \<and>
                153 \<le> m \<and> m \<le> 500 \<and> m \<le> m'"
  using percent_to_mired_Num [OF assms(1)] percent_to_mired_Num [OF assms(4)]
    percent_round_range [OF assms(2,3)] percent_round_mono [OF assms(5)] by blast

theorem percent_to_mired_range_mono_witness:
  "\<exists>m m'. percent_to_mired ''37.5'' = Num (of_int m) \<and> percent_to_mired ''80'' = Num (of_int m') \<and>
          153 \<le> m \<and> m \<le> 500 \<and> m \<le> m'"
  using percent_to_mired_range_mono [of "''37.5''" "75 / 2" "''80''" 80] by (simp add: js_simps)

text \<open>
  C25: a Kelvin value in the nominal range \<open>[2000, 6500]\<close> is converted to an
  integral mired value in \<open>[153, 500]\<close>, and the conversion is antitone: a
  warmer (lower Kelvin) entry never gives a smaller mired value.
\<close>

theorem kelvin_to_mired_range_antimono:
  assumes "to_number c = Num k" and "2000 \<le> k" and "k \<le> 6500"
    and "to_number d = Num k'" and "k \<le> k'"
  shows "\<exists>m m'. kelvin_to_mired c = Num (of_int m) \<and> kelvin_to_mired d = Num (of_int m') \<and>
                153 \<le> m \<and> m \<le> 500 \<and> m' \<le> m"
  using kelvin_to_mired_Num [OF assms(1)] kelvin_to_mired_Num [OF assms(4)]
    kelvin_round_range [OF assms(2,3)] kelvin_round_antimono [OF assms(5)] by blast

theorem kelvin_to_mired_range_antimono_witness:
  "\<exists>m m'. kelvin_to_mired ''2230'' = Num (of_int m) \<and> kelvin_to_mired ''6410'' = Num (of_int m') \<and>
          153 \<le> m \<and> m \<le> 500 \<and> m' \<le> m"
  using kelvin_to_mired_range_antimono [of "''2230''" 2230 "''6410''" 6410] by (simp add: js_simps)

end
