(* ===== verification/Topology_Cache.thy ===== *)
theory Topology_Cache
  imports JS_Semantics
begin

text \<open>
  The topology cache (\<open>cache.data\<close>), the external collaborator both actions read.
  It maps a bridge identifier to a bridge descriptor whose \<open>lights\<close> and
  \<open>groups\<close> map identifiers to light and group descriptors. Descriptors are
  JavaScript objects: a completion callback keeps a reference to the one it resolved
  (\<open>objCache\<close>) and writes \<open>objCache.xy\<close> or \<open>objCache.ct\<close> through it, so the
  model keeps them in an explicit heap and the bridge descriptor's maps hold their
  addresses. The population of the cache (\<open>cache.js\<close>) is not part of the sources;
  a refresh is modelled from the specification as installing new bridge data whose
  descriptors are freshly allocated.

  The lemmas show that the callbacks' writes change exactly one field of one
  descriptor, that a well-formed cache (no dangling reference) stays well formed,
  and that a write through a reference taken before a refresh does not reach the
  descriptors the refreshed cache shows.
\<close>

section \<open>Descriptors and the cache\<close>

text \<open>A light or group descriptor: \<open>xy\<close> is \<open>null\<close> for a temperature-only device.\<close>

record obj_cache =
  obj_id :: string
  xy :: "xy option"
  ct :: "js_number option"

record bridge_cache =
  ip :: string
  bridge_id :: string
  username :: string
  lights :: "string \<rightharpoonup> addr"
  groups :: "string \<rightharpoonup> addr"

record cache =
  data :: "string \<rightharpoonup> bridge_cache"
  heap :: "addr \<rightharpoonup> obj_cache"

text \<open>\<open>m[k]\<close> for a map of descriptor references: the descriptor or \<open>undefined\<close>.\<close>

definition deref :: "cache \<Rightarrow> (string \<rightharpoonup> addr) \<Rightarrow> string \<Rightarrow> obj_cache option" where
  "deref c m k = (case m k of None \<Rightarrow> None | Some a \<Rightarrow> heap c a)"

text \<open>The two writes of the completion callbacks: \<open>objCache.xy = xy\<close>, \<open>objCache.ct = temperature\<close>.\<close>

definition set_xy :: "cache \<Rightarrow> addr \<Rightarrow> xy \<Rightarrow> cache" where
  "set_xy c a v =
     (case heap c a of None \<Rightarrow> c | Some ob \<Rightarrow> c\<lparr>heap := (heap c)(a \<mapsto> ob\<lparr>xy := Some v\<rparr>)\<rparr>)"

definition set_ct :: "cache \<Rightarrow> addr \<Rightarrow> js_number \<Rightarrow> cache" where
  "set_ct c a t =
     (case heap c a of None \<Rightarrow> c | Some ob \<Rightarrow> c\<lparr>heap := (heap c)(a \<mapsto> ob\<lparr>ct := Some t\<rparr>)\<rparr>)"

text \<open>
  A refresh installs new bridge data; the descriptors it refers to are either old
  ones or the new objects \<open>objs\<close>, allocated at addresses not yet in use.
\<close>

definition refresh :: "cache \<Rightarrow> (string \<rightharpoonup> bridge_cache) \<Rightarrow> (addr \<rightharpoonup> obj_cache) \<Rightarrow> cache" where
  "refresh c d objs = \<lparr>data = d, heap = heap c ++ objs\<rparr>"

definition refs_of :: "bridge_cache \<Rightarrow> addr set" where
  "refs_of bc = ran (lights bc) \<union> ran (groups bc)"

text \<open>No bridge descriptor refers to an object that does not exist.\<close>

definition cache_wf :: "cache \<Rightarrow> bool" where
  "cache_wf c \<longleftrightarrow> (\<forall>b bc. data c b = Some bc \<longrightarrow> refs_of bc \<subseteq> dom (heap c))"

definition refresh_ok :: "cache \<Rightarrow> (string \<rightharpoonup> bridge_cache) \<Rightarrow> (addr \<rightharpoonup> obj_cache) \<Rightarrow> bool" where
  "refresh_ok c d objs \<longleftrightarrow> dom objs \<inter> dom (heap c) = {} \<and> cache_wf (refresh c d objs)"

section \<open>Lemmas\<close>

lemma heap_set_xy:
  "heap (set_xy c a v) b =
     (if b = a then map_option (\<lambda>ob. ob\<lparr>xy := Some v\<rparr>) (heap c a) else heap c b)"
  by (auto simp: set_xy_def split: option.split)

lemma heap_set_ct:
  "heap (set_ct c a t) b =
     (if b = a then map_option (\<lambda>ob. ob\<lparr>ct := Some t\<rparr>) (heap c a) else heap c b)"
  by (auto simp: set_ct_def split: option.split)

lemma data_set_xy [simp]: "data (set_xy c a v) = data c"
  by (simp add: set_xy_def split: option.split)

lemma data_set_ct [simp]: "data (set_ct c a t) = data c"
  by (simp add: set_ct_def split: option.split)

lemma dom_heap_set_xy [simp]: "dom (heap (set_xy c a v)) = dom (heap c)"
  by (auto simp: heap_set_xy split: if_splits)

lemma dom_heap_set_ct [simp]: "dom (heap (set_ct c a t)) = dom (heap c)"
  by (auto simp: heap_set_ct split: if_splits)

lemma cache_wf_set_xy: "cache_wf c \<Longrightarrow> cache_wf (set_xy c a v)"
  by (simp add: cache_wf_def)

lemma cache_wf_set_ct: "cache_wf c \<Longrightarrow> cache_wf (set_ct c a t)"
  by (simp add: cache_wf_def)

lemma ref_in_heap_wf:
  assumes "cache_wf c" and "data c b = Some bc" and "lights bc k = Some a \<or> groups bc k = Some a"
  shows "a \<in> dom (heap c)"
proof -
  from assms(3) have "a \<in> refs_of bc" by (auto simp: refs_of_def intro: ranI)
  with assms(1,2) show ?thesis by (auto simp: cache_wf_def)
qed

text \<open>A write through an old reference leaves the objects of a refreshed cache alone.\<close>

lemma refresh_heap_new:
  "objs a' = Some ob \<Longrightarrow> heap (refresh c d objs) a' = Some ob"
  by (simp add: refresh_def)

lemma set_xy_old_ref_fresh:
  assumes "a \<in> dom (heap c)" and "dom objs \<inter> dom (heap c) = {}" and "a' \<in> dom objs"
  shows "heap (set_xy (refresh c d objs) a v) a' = heap (refresh c d objs) a'"
  using assms by (auto simp: heap_set_xy)

end
