(* ===== verification/Action_Base.thy ===== *)
theory Action_Base
  imports Color_Codec Topology_Cache
begin

text \<open>
  What the two actions share. The per-key settings object, the instance state the
  base prototype \<open>Action\<close> keeps (its context and settings; \<open>action.js\<close> is not
  part of the sources and is modelled from the specification), the observable
  effects of a handler (a log line, an alert on the key, a request to the bridge,
  a settings write), the request a handler hands to the device transport, and the
  code both \<open>onKeyUp\<close> handlers and both \<open>setDefaults\<close> functions repeat
  verbatim: the guard chain on bridge and light, the light-or-group resolution and
  the two completion callbacks. The definitions follow \<open>colorAction.js\<close>; the
  same lines appear again in \<open>cycleAction.js\<close>.
\<close>

section \<open>Settings, effects and requests\<close>

text \<open>The settings object: each field is present (\<open>'bridge' in settings\<close>) or not.\<close>

record settings =
  bridge :: "string option"
  light :: "string option"
  color :: "string option"
  colors :: "string list option"

datatype target_kind = Light | Group

datatype command = SetXY xy | SetTemperature js_number

text \<open>
  A request to the device transport: \<open>new Bridge(ip, id, username)\<close>, the
  \<open>Light\<close> or \<open>Group\<close> object built from the descriptor's \<open>id\<close>, the state to set,
  and what the completion callback's closure captures: the descriptor reference
  \<open>objCache\<close> and the key's context.
\<close>

record request =
  req_ip :: string
  req_bridge_id :: string
  req_username :: string
  req_kind :: target_kind
  req_obj_id :: string
  req_cmd :: command
  req_ref :: addr
  req_ctx :: ctx

datatype effect =
    Log string
  | ShowAlert ctx
  | Dispatch request
  | SaveSettings string ctx settings
  | CacheCallback ctx

text \<open>The state of an action instance kept by the base prototype \<open>Action\<close>.\<close>

record action_inst =
  inst_context :: ctx
  inst_settings :: settings

section \<open>The guard chain of onKeyUp\<close>

text \<open>Lines 23--26: a manually triggered key-up carries no settings; use the stored ones.\<close>

definition load_settings :: "'a action_inst_scheme \<Rightarrow> settings option \<Rightarrow> settings" where
  "load_settings inst in_settings =
     (case in_settings of None \<Rightarrow> inst_settings inst | Some s \<Rightarrow> s)"

text \<open>
  \<open>colorAction.js\<close> lines 28--57 (\<open>cycleAction.js\<close> lines 29--58): each failed
  check logs, alerts and returns (\<^const>\<open>Inl\<close>, the effects); otherwise the bridge
  descriptor and the light identifier (\<^const>\<open>Inr\<close>).
\<close>

definition key_up_guards ::
  "cache \<Rightarrow> ctx \<Rightarrow> settings \<Rightarrow> effect list + (bridge_cache \<times> string)" where
  "key_up_guards c context s =
     (case bridge s of
        None \<Rightarrow> Inl [Log ''No bridge configured'', ShowAlert context]
      | Some b \<Rightarrow>
          (case data c b of
             None \<Rightarrow> Inl [Log (''Bridge '' @ b @ '' not found in cache''), ShowAlert context]
           | Some bc \<Rightarrow>
               (case light s of
                  None \<Rightarrow> Inl [Log ''No light or group configured'', ShowAlert context]
                | Some l \<Rightarrow>
                    (if lights bc l \<noteq> None \<or> groups bc l \<noteq> None then Inr (bc, l)
                     else Inl [Log (''Light or group '' @ l @ '' not found in cache''),
                               ShowAlert context]))))"

text \<open>
  Lines 66--77: a light if the identifier contains \<open>'l'\<close>, otherwise a group;
  reading \<open>objCache.id\<close> of \<open>undefined\<close> throws.
\<close>

definition key_up_target ::
  "cache \<Rightarrow> bridge_cache \<Rightarrow> string \<Rightarrow> js_error + (target_kind \<times> addr \<times> obj_cache)" where
  "key_up_target c bc l =
     (let (k, m) = (if index_of l ''l'' \<noteq> -1 then (Light, lights bc) else (Group, groups bc))
      in case m l of
           None \<Rightarrow> Inl (TypeError ''id'')
         | Some a \<Rightarrow> (case heap c a of None \<Rightarrow> Inl (TypeError ''id'') | Some ob \<Rightarrow> Inr (k, a, ob)))"

definition make_request ::
  "bridge_cache \<Rightarrow> target_kind \<Rightarrow> addr \<Rightarrow> obj_cache \<Rightarrow> command \<Rightarrow> ctx \<Rightarrow> request" where
  "make_request bc k a ob cmd context =
     \<lparr>req_ip = ip bc, req_bridge_id = bridge_id bc, req_username = username bc,
      req_kind = k, req_obj_id = obj_id ob, req_cmd = cmd, req_ref = a, req_ctx = context\<rparr>"

text \<open>
  The completion callbacks, lines 85--93 and 106--114: on success the descriptor
  captured as \<open>objCache\<close> records the new state; on failure the error is logged
  and the key alerted.
\<close>

definition xy_callback :: "cache \<Rightarrow> request \<Rightarrow> xy \<Rightarrow> bool \<Rightarrow> string \<Rightarrow> cache \<times> effect list" where
  "xy_callback c r v success err =
     (if success then (set_xy c (req_ref r) v, []) else (c, [Log err, ShowAlert (req_ctx r)]))"

definition ct_callback ::
  "cache \<Rightarrow> request \<Rightarrow> js_number \<Rightarrow> bool \<Rightarrow> string \<Rightarrow> cache \<times> effect list" where
  "ct_callback c r t success err =
     (if success then (set_ct c (req_ref r) t, []) else (c, [Log err, ShowAlert (req_ctx r)]))"

definition run_callback :: "cache \<Rightarrow> request \<Rightarrow> bool \<Rightarrow> string \<Rightarrow> cache \<times> effect list" where
  "run_callback c r success err =
     (case req_cmd r of
        SetXY v \<Rightarrow> xy_callback c r v success err
      | SetTemperature t \<Rightarrow> ct_callback c r t success err)"

section \<open>The guard chain of setDefaults\<close>

text \<open>
  \<open>colorAction.js\<close> lines 139--168 (\<open>cycleAction.js\<close> lines 153--183): any
  failed check returns without a change (\<^const>\<open>None\<close>); otherwise the descriptor
  \<open>lightCache\<close>, looked up in \<open>lights\<close> when the identifier contains \<open>'l-'\<close> and
  in \<open>groups\<close> otherwise, which may be \<open>undefined\<close> (\<open>Some None\<close>).
\<close>

definition defaults_target :: "cache \<Rightarrow> settings \<Rightarrow> obj_cache option option" where
  "defaults_target c s =
     (case bridge s of
        None \<Rightarrow> None
      | Some b \<Rightarrow>
          (case data c b of
             None \<Rightarrow> None
           | Some bc \<Rightarrow>
               (case light s of
                  None \<Rightarrow> None
                | Some l \<Rightarrow>
                    (if lights bc l \<noteq> None \<or> groups bc l \<noteq> None
                     then Some (deref c (if index_of l ''l-'' \<noteq> -1 then lights bc else groups bc) l)
                     else None))))"

text \<open>\<open>lightCache.xy\<close>: \<open>undefined.xy\<close> throws.\<close>

definition read_xy :: "obj_cache option \<Rightarrow> js_error + xy option" where
  "read_xy lc = (case lc of None \<Rightarrow> Inl (TypeError ''xy'') | Some ob \<Rightarrow> Inr (xy ob))"

text \<open>
  The capability test of both \<open>setDefaults\<close>: a value whose first character is
  \<open>'#'\<close> fits a colour light, any other value a temperature-only one.
\<close>

definition fits_capability :: "string \<Rightarrow> xy option \<Rightarrow> bool" where
  "fits_capability v x \<longleftrightarrow> (if char_at v 0 = ''#'' then x \<noteq> None else x = None)"

section \<open>Specification-level predicates\<close>

text \<open>The configured bridge and light (or group) are both present in the cache.\<close>

definition target_known :: "cache \<Rightarrow> settings \<Rightarrow> bool" where
  "target_known c s \<longleftrightarrow>
     (\<exists>b bc l. bridge s = Some b \<and> data c b = Some bc \<and> light s = Some l \<and>
               (lights bc l \<noteq> None \<or> groups bc l \<noteq> None))"

text \<open>
  The identifiers the plugin's cache gives its descriptors: light keys contain
  \<open>l-\<close> (\<open>l-3\<close>) and group keys contain no \<open>l\<close> (\<open>g-1\<close>).
\<close>

definition naming_convention :: "bridge_cache \<Rightarrow> bool" where
  "naming_convention bc \<longleftrightarrow>
     (\<forall>k. lights bc k \<noteq> None \<longrightarrow> sublist ''l-'' k) \<and>
     (\<forall>k. groups bc k \<noteq> None \<longrightarrow> CHR ''l'' \<notin> set k)"

text \<open>
  A command carries what the bridge's state fields take: a temperature is the
  result of \<open>Math.round\<close>, an integer or a non-finite number.
\<close>

definition cmd_typed :: "command \<Rightarrow> bool" where
  "cmd_typed cmd =
     (case cmd of SetXY v \<Rightarrow> True | SetTemperature t \<Rightarrow> js_is_integer t \<or> t \<in> {NaN, PosInf, NegInf})"

section \<open>Example topology\<close>

text \<open>
  One bridge \<open>b-1\<close> with a colour light \<open>l-1\<close>, a temperature-only light
  \<open>l-2\<close> and a colour group \<open>g-1\<close>, and a colour action on key \<open>ctx-1\<close>
  configured for \<open>l-1\<close>; the witnesses below evaluate the handlers on it.
\<close>

abbreviation ex_bridge :: bridge_cache where
  "ex_bridge \<equiv> \<lparr>ip = ''192.168.1.20'', bridge_id = ''001788fffe6c2a1b'', username = ''hue-app'',
     lights = [''l-1'' \<mapsto> 0, ''l-2'' \<mapsto> 1], groups = [''g-1'' \<mapsto> 2]\<rparr>"

abbreviation ex_cache :: cache where
  "ex_cache \<equiv> \<lparr>data = [''b-1'' \<mapsto> ex_bridge],
     heap = [0 \<mapsto> \<lparr>obj_id = ''1'', xy = Some (1/2, 2/5), ct = None\<rparr>,
             1 \<mapsto> \<lparr>obj_id = ''2'', xy = None, ct = Some (Num 366)\<rparr>,
             2 \<mapsto> \<lparr>obj_id = ''1'', xy = Some (1/3, 1/3), ct = None\<rparr>]\<rparr>"

abbreviation ex_settings :: settings where
  "ex_settings \<equiv> \<lparr>bridge = Some ''b-1'', light = Some ''l-1'', color = Some ''#ff8000'', colors = None\<rparr>"

abbreviation ex_inst :: action_inst where
  "ex_inst \<equiv> \<lparr>inst_context = ''ctx-1'', inst_settings = ex_settings\<rparr>"

abbreviation ex_request :: request where
  "ex_request \<equiv> \<lparr>req_ip = ''192.168.1.20'', req_bridge_id = ''001788fffe6c2a1b'',
     req_username = ''hue-app'', req_kind = Light, req_obj_id = ''1'', req_cmd = SetXY (1/4, 1/4),
     req_ref = 0, req_ctx = ''ctx-1''\<rparr>"

section \<open>Lemmas\<close>

subsection \<open>The guard chains\<close>

lemma key_up_guards_Inr_iff [guard_simps]:
  "key_up_guards c context s = Inr (bc, l) \<longleftrightarrow>
   (\<exists>b. bridge s = Some b \<and> data c b = Some bc) \<and> light s = Some l \<and>
   (lights bc l \<noteq> None \<or> groups bc l \<noteq> None)"
  by (auto simp: key_up_guards_def split: option.splits)

lemma key_up_guards_Inl:
  "key_up_guards c context s = Inl effs \<Longrightarrow> \<exists>m. effs = [Log m, ShowAlert context]"
  by (auto simp: key_up_guards_def split: option.splits if_splits)

lemma key_up_guards_rejects:
  "\<not> target_known c s \<Longrightarrow> \<exists>m. key_up_guards c context s = Inl [Log m, ShowAlert context]"
  by (auto simp: key_up_guards_def target_known_def split: option.splits)

lemma key_up_guards_known:
  "target_known c s \<Longrightarrow> \<exists>bc l. key_up_guards c context s = Inr (bc, l)"
  by (auto simp: key_up_guards_Inr_iff target_known_def)

lemma defaults_target_unknown [guard_simps]:
  "\<not> target_known c s \<Longrightarrow> defaults_target c s = None"
  by (auto simp: defaults_target_def target_known_def split: option.splits)

lemma defaults_target_known:
  "target_known c s \<Longrightarrow> \<exists>lc. defaults_target c s = Some lc"
  by (auto simp: defaults_target_def target_known_def split: option.splits)

subsection \<open>Light or group, under the naming convention\<close>

lemma sublist_l_dash: "sublist ''l-'' k \<Longrightarrow> CHR ''l'' \<in> set k"
proof -
  assume "sublist ''l-'' k"
  moreover have "sublist [CHR ''l''] ''l-''" by (simp add: sublist_singleton)
  ultimately have "sublist [CHR ''l''] k" by (rule sublist_order.order_trans [rotated])
  then show ?thesis by (simp add: sublist_singleton)
qed

lemma convention_light:
  assumes "naming_convention bc" and "lights bc l \<noteq> None"
  shows "index_of l ''l'' \<noteq> -1 \<and> index_of l ''l-'' \<noteq> -1 \<and> groups bc l = None"
proof -
  from assms have sub: "sublist ''l-'' l" by (simp add: naming_convention_def)
  then have l: "CHR ''l'' \<in> set l" by (rule sublist_l_dash)
  with assms(1) have "groups bc l = None" by (auto simp: naming_convention_def)
  with sub l show ?thesis by (simp add: index_of_def index_of_from_found sublist_singleton)
qed

lemma convention_group:
  assumes "naming_convention bc" and "groups bc l \<noteq> None"
  shows "index_of l ''l'' = -1 \<and> index_of l ''l-'' = -1 \<and> lights bc l = None"
proof -
  from assms have nl: "CHR ''l'' \<notin> set l" by (simp add: naming_convention_def)
  then have nsub: "\<not> sublist ''l-'' l" using sublist_l_dash by blast
  with assms(1) have "lights bc l = None" by (auto simp: naming_convention_def)
  moreover from nl have "index_of l ''l'' = -1" using index_of_char by blast
  moreover from nsub have "index_of l ''l-'' = -1" using index_of_def index_of_from_found by metis
  ultimately show ?thesis by simp
qed

subsection \<open>Resolution of the configured target\<close>

lemma key_up_target_light:
  "naming_convention bc \<Longrightarrow> lights bc l = Some a \<Longrightarrow> heap c a = Some ob \<Longrightarrow>
   key_up_target c bc l = Inr (Light, a, ob)"
  using convention_light [of bc l] by (simp add: key_up_target_def)

lemma key_up_target_group:
  "naming_convention bc \<Longrightarrow> groups bc l = Some a \<Longrightarrow> heap c a = Some ob \<Longrightarrow>
   key_up_target c bc l = Inr (Group, a, ob)"
  using convention_group [of bc l] by (simp add: key_up_target_def)

lemma defaults_target_resolves:
  assumes "bridge s = Some b" "data c b = Some bc" "light s = Some l" "naming_convention bc"
    "lights bc l = Some a \<or> groups bc l = Some a" "heap c a = Some ob"
  shows "defaults_target c s = Some (Some ob)"
  using assms convention_light [of bc l] convention_group [of bc l]
  by (auto simp: defaults_target_def deref_def)

lemma defaults_target_color_upd [simp]:
  "defaults_target c (s\<lparr>color := v\<rparr>) = defaults_target c s"
  by (simp add: defaults_target_def split: option.split)

lemma defaults_target_colors_upd [simp]:
  "defaults_target c (s\<lparr>colors := v\<rparr>) = defaults_target c s"
  by (simp add: defaults_target_def split: option.split)

lemma fits_capability_defaults [simp]:
  "fits_capability ''#ffffff'' x \<longleftrightarrow> x \<noteq> None"
  "fits_capability ''50'' x \<longleftrightarrow> x = None"
  by (simp_all add: fits_capability_def char_at_def)

lemma resolved_target:
  assumes "bridge s = Some b" and "data c b = Some bc" and "light s = Some l"
    and conv: "naming_convention bc" and la: "lights bc l = Some a \<or> groups bc l = Some a"
    and h: "heap c a = Some ob"
  shows "key_up_guards c context s = Inr (bc, l) \<and>
         key_up_target c bc l = Inr (if lights bc l = Some a then Light else Group, a, ob)"
proof -
  have g: "key_up_guards c context s = Inr (bc, l)"
    using assms(1-3) la by (auto simp: key_up_guards_Inr_iff)
  show ?thesis
  proof (cases "lights bc l = Some a")
    case True
    from conv True h have "key_up_target c bc l = Inr (Light, a, ob)" by (rule key_up_target_light)
    with g True show ?thesis by simp
  next
    case False
    with la have "groups bc l = Some a" by simp
    from conv this h have "key_up_target c bc l = Inr (Group, a, ob)" by (rule key_up_target_group)
    with g False show ?thesis by simp
  qed
qed

lemma ex_bridge_convention: "naming_convention ex_bridge"
  by (auto simp: naming_convention_def sublist_Cons_right)

lemma ex_cache_wf: "cache_wf ex_cache"
  by (simp add: cache_wf_def refs_of_def)

subsection \<open>What the callbacks preserve\<close>

lemma key_up_target_heap: "key_up_target c bc l = Inr (k, a, ob) \<Longrightarrow> heap c a = Some ob"
  by (auto simp: key_up_target_def split: if_splits option.splits)

lemma run_callback_data [simp]: "data (fst (run_callback c r success err)) = data c"
  by (simp add: run_callback_def xy_callback_def ct_callback_def split: command.split)

lemma run_callback_dom [simp]: "dom (heap (fst (run_callback c r success err))) = dom (heap c)"
  by (simp add: run_callback_def xy_callback_def ct_callback_def split: command.split)

lemma cache_wf_run_callback: "cache_wf c \<Longrightarrow> cache_wf (fst (run_callback c r success err))"
  by (simp add: cache_wf_def)

subsection \<open>The example topology resolved\<close>

text \<open>What the guard chains and target lookups give on \<^const>\<open>ex_cache\<close>, shared by the witnesses.\<close>

lemma ex_key_up_target_l1:
  "key_up_target ex_cache ex_bridge ''l-1'' = Inr (Light, 0, \<lparr>obj_id = ''1'', xy = Some (1/2, 2/5), ct = None\<rparr>)"
  by (simp add: key_up_target_def index_of_def)

lemma ex_defaults_target:
  "bridge s = Some ''b-1'' \<Longrightarrow> light s = Some ''l-1'' \<Longrightarrow>
   defaults_target ex_cache s = Some (Some \<lparr>obj_id = ''1'', xy = Some (1/2, 2/5), ct = None\<rparr>)"
  "bridge s = Some ''b-1'' \<Longrightarrow> light s = Some ''l-2'' \<Longrightarrow>
   defaults_target ex_cache s = Some (Some \<lparr>obj_id = ''2'', xy = None, ct = Some (Num 366)\<rparr>)"
  by (simp_all add: defaults_target_def deref_def index_of_def)

section \<open>Properties\<close>

text \<open>
  C10: a completion callback changes the cache only by recording the dispatched
  state in the one descriptor the request captured: on success its \<open>xy\<close> becomes
  exactly the dispatched XY value (or its \<open>ct\<close> exactly the dispatched
  temperature) and every other field, every other descriptor and the bridge data
  are unchanged; on failure the cache is unchanged and the transport's error is
  logged and alerted on the key.
\<close>

theorem run_callback_effect:
  assumes "heap c (req_ref r) = Some ob"
  shows "run_callback c r True err =
           (c\<lparr>heap := (heap c)(req_ref r \<mapsto>
               (case req_cmd r of SetXY v \<Rightarrow> ob\<lparr>xy := Some v\<rparr> | SetTemperature t \<Rightarrow> ob\<lparr>ct := Some t\<rparr>))\<rparr>,
            []) \<and>
         run_callback c r False err = (c, [Log err, ShowAlert (req_ctx r)])"
  using assms
  by (cases "req_cmd r") (simp_all add: run_callback_def xy_callback_def ct_callback_def set_xy_def set_ct_def)

theorem run_callback_effect_witness:
  "run_callback ex_cache ex_request True ''ok'' =
     (ex_cache\<lparr>heap := (heap ex_cache)(0 \<mapsto> \<lparr>obj_id = ''1'', xy = Some (1/4, 1/4), ct = None\<rparr>)\<rparr>, []) \<and>
   run_callback ex_cache ex_request False ''timeout'' = (ex_cache, [Log ''timeout'', ShowAlert ''ctx-1''])"
  using run_callback_effect [of ex_cache ex_request "\<lparr>obj_id = ''1'', xy = Some (1/2, 2/5), ct = None\<rparr>"]
  by simp

end
