(* ===== verification/Color_Action.thy ===== *)
theory Color_Action
  imports Action_Base
begin

text \<open>
  The single-colour action, \<open>colorAction.js\<close>. \<open>color_on_key_up\<close> is the key-up
  handler: it loads the stored settings when the event carries none, runs the guard
  chain, and hands one request to the device transport, a colour (\<open>setXY\<close>) when
  the configured value contains \<open>'#'\<close> and a colour temperature (\<open>setTemperature\<close>)
  otherwise; its completion callbacks are those of \<open>Action_Base\<close>.
  \<open>color_set_defaults\<close> is the private \<open>setDefaults\<close>, which repairs a missing or
  incompatible colour and saves the settings; the constructor and
  \<open>newCacheAvailable\<close> run it. A handler that throws returns \<^const>\<open>Inl\<close> of the
  \<open>TypeError\<close>; its effects up to the throw are none, as the source performs no
  effect before the reads that can throw. The lemmas also compare the two tests the
  file uses to tell a colour from a temperature, \<open>indexOf('#')\<close> in \<open>onKeyUp\<close>
  and \<open>charAt(0)\<close> in \<open>setDefaults\<close>. \<open>color_key_up_event\<close> is the entry point
  the host calls, with an \<open>undefined\<close>, \<open>null\<close> or object settings argument.
\<close>

section \<open>Definitions\<close>

text \<open>Lines 79--115: a value containing \<open>'#'\<close> is a colour, any other a slider position.\<close>

definition color_command :: "(string \<Rightarrow> xy) \<Rightarrow> string \<Rightarrow> command" where
  "color_command hex2xy col =
     (if index_of col ''#'' \<noteq> -1 then SetXY (hex2xy col) else SetTemperature (percent_to_mired col))"

definition color_on_key_up ::
  "(string \<Rightarrow> xy) \<Rightarrow> cache \<Rightarrow> action_inst \<Rightarrow> ctx \<Rightarrow> settings option \<Rightarrow> js_error + effect list" where
  "color_on_key_up hex2xy c inst context in_settings =
     (let s = load_settings inst in_settings in
      case key_up_guards c context s of
        Inl effs \<Rightarrow> Inr effs
      | Inr (bc, l) \<Rightarrow>
          (case color s of
             None \<Rightarrow> Inr [Log ''No color configured'', ShowAlert context]
           | Some col \<Rightarrow>
               (case key_up_target c bc l of
                  Inl e \<Rightarrow> Inl e
                | Inr (k, a, ob) \<Rightarrow>
                    Inr [Dispatch (make_request bc k a ob (color_command hex2xy col) context)])))"

text \<open>
  Lines 22--26, the entry point: \<open>inSettings == undefined\<close> holds for
  \<open>undefined\<close> and for \<open>null\<close>, and then the stored settings are used.
\<close>

definition color_key_up_event ::
  "(string \<Rightarrow> xy) \<Rightarrow> cache \<Rightarrow> action_inst \<Rightarrow> ctx \<Rightarrow> settings js_arg \<Rightarrow> js_error + effect list" where
  "color_key_up_event hex2xy c inst context arg =
     (case arg of
        Obj s \<Rightarrow> color_on_key_up hex2xy c inst context (Some s)
      | _ \<Rightarrow> color_on_key_up hex2xy c inst context None)"

definition color_set_defaults :: "cache \<Rightarrow> action_inst \<Rightarrow> js_error + (action_inst \<times> effect list)" where
  "color_set_defaults c inst =
     (let s = inst_settings inst; context = inst_context inst in
      case defaults_target c s of
        None \<Rightarrow> Inr (inst, [])
      | Some lc \<Rightarrow>
          (case read_xy lc of
             Inl e \<Rightarrow> Inl e
           | Inr x \<Rightarrow>
               (if (case color s of None \<Rightarrow> False | Some v \<Rightarrow> fits_capability v x) then Inr (inst, [])
                else (let s' = s\<lparr>color := Some (if x \<noteq> None then ''#ffffff'' else ''50'')\<rparr>
                      in Inr (inst\<lparr>inst_settings := s'\<rparr>,
                              [SaveSettings ''com.elgato.philips-hue.color'' context s'])))))"

definition color_new_cache_available ::
  "cache \<Rightarrow> action_inst \<Rightarrow> js_error + (action_inst \<times> effect list)" where
  "color_new_cache_available c inst =
     (case color_set_defaults c inst of
        Inl e \<Rightarrow> Inl e
      | Inr (inst', effs) \<Rightarrow> Inr (inst', effs @ [CacheCallback (inst_context inst)]))"

definition color_action_new :: "cache \<Rightarrow> ctx \<Rightarrow> settings \<Rightarrow> js_error + (action_inst \<times> effect list)" where
  "color_action_new c context s =
     color_set_defaults c \<lparr>inst_context = context, inst_settings = s\<rparr>"

section \<open>Lemmas\<close>

lemma color_key_up_dispatch:
  assumes "key_up_guards c ctx (load_settings inst ins) = Inr (bc, l)"
    and "color (load_settings inst ins) = Some col"
    and "key_up_target c bc l = Inr (k, a, ob)"
  shows "color_on_key_up hex2xy c inst ctx ins =
         Inr [Dispatch (make_request bc k a ob (color_command hex2xy col) ctx)]"
  using assms by (simp add: color_on_key_up_def)

lemma color_set_defaults_undefined:
  "defaults_target c (inst_settings inst) = Some None \<Longrightarrow>
   color_set_defaults c inst = Inl (TypeError ''xy'')"
  by (simp add: color_set_defaults_def read_xy_def Let_def)

lemma color_command_typed: "cmd_typed (color_command hex2xy v)"
  using js_round_integer by (simp add: color_command_def cmd_typed_def percent_to_mired_def)

section \<open>Properties\<close>

subsection \<open>onKeyUp\<close>

text \<open>
  C2: a key press whose settings lack a bridge, a light or a colour, or name a
  bridge or light the cache does not hold, logs one line, alerts the key and
  issues no request to the bridge.
\<close>

theorem color_key_up_rejects:
  assumes "\<not> target_known c (load_settings inst ins) \<or> color (load_settings inst ins) = None"
  shows "\<exists>m. color_on_key_up hex2xy c inst ctx ins = Inr [Log m, ShowAlert ctx]"
proof (cases "target_known c (load_settings inst ins)")
  case True
  then obtain bc l where "key_up_guards c ctx (load_settings inst ins) = Inr (bc, l)"
    using key_up_guards_known by blast
  with True assms show ?thesis by (simp add: color_on_key_up_def)
next
  case False
  then obtain m where "key_up_guards c ctx (load_settings inst ins) = Inl [Log m, ShowAlert ctx]"
    using key_up_guards_rejects by blast
  then show ?thesis by (simp add: color_on_key_up_def)
qed

theorem color_key_up_rejects_witness:
  "\<exists>m. color_on_key_up (\<lambda>_. (0, 0)) ex_cache ex_inst ''ctx-1'' (Some (ex_settings\<lparr>bridge := Some ''b-9''\<rparr>)) =
       Inr [Log m, ShowAlert ''ctx-1'']"
  using color_key_up_rejects [of ex_cache ex_inst "Some (ex_settings\<lparr>bridge := Some ''b-9''\<rparr>)"]
  by (simp add: target_known_def load_settings_def)

text \<open>
  C1: with the cache's naming convention, a key press whose bridge, light or group
  and colour are configured and known issues exactly one request: to the configured
  bridge, for a light when the identifier names one and a group otherwise, with the
  descriptor's id, the colour or temperature of the configured value, and a callback
  bound to that descriptor and key.
\<close>

theorem color_key_up_sends:
  assumes "load_settings inst ins = s" and "bridge s = Some b" and "data c b = Some bc"
    and "light s = Some l" and "naming_convention bc" and "lights bc l = Some a \<or> groups bc l = Some a"
    and "heap c a = Some ob" and "color s = Some col"
  shows "color_on_key_up hex2xy c inst ctx ins =
     Inr [Dispatch \<lparr>req_ip = ip bc, req_bridge_id = bridge_id bc, req_username = username bc,
                    req_kind = (if lights bc l = Some a then Light else Group), req_obj_id = obj_id ob,
                    req_cmd = color_command hex2xy col, req_ref = a, req_ctx = ctx\<rparr>]"
proof -
  from resolved_target [OF assms(2-7)] have
    g: "key_up_guards c ctx s = Inr (bc, l)"
    and t: "key_up_target c bc l = Inr (if lights bc l = Some a then Light else Group, a, ob)" by auto
  show ?thesis
    using color_key_up_dispatch [OF _ _ t, of ctx inst ins col hex2xy] g assms(1,8)
    by (simp add: make_request_def)
qed

theorem color_key_up_sends_witness:
  "color_on_key_up (\<lambda>_. (1/4, 1/4)) ex_cache ex_inst ''ctx-1'' None = Inr [Dispatch ex_request]"
  using color_key_up_sends [of ex_inst None ex_settings "''b-1''" ex_cache ex_bridge "''l-1''" 0
      "\<lparr>obj_id = ''1'', xy = Some (1/2, 2/5), ct = None\<rparr>" "''#ff8000''" "\<lambda>_. (1/4, 1/4)" "''ctx-1''"]
    ex_bridge_convention
  by (simp add: load_settings_def color_command_def index_of_def)

text \<open>
  C17: where \<open>'#'\<close> occurs at most at the front of a value, the two tests the code
  uses to tell a colour from a temperature agree: \<open>setDefaults\<close> keeps the value
  on a target (\<open>charAt(0) == '#'\<close> against \<open>xy != null\<close>) exactly when
  \<open>onKeyUp\<close> (\<open>indexOf('#') !== -1\<close>) sends it as the kind of command that
  target takes, an XY colour to a colour light and a temperature otherwise.
\<close>

theorem hex_tests_agree:
  assumes "CHR ''#'' \<notin> set (tl v)"
  shows "fits_capability v x \<longleftrightarrow> ((\<exists>p. color_command hex2xy v = SetXY p) \<longleftrightarrow> x \<noteq> None)"
proof -
  have "CHR ''#'' \<in> set v \<longleftrightarrow> char_at v 0 = ''#''"
    using assms by (cases v) (auto simp: char_at_0_eq)
  then show ?thesis by (cases x) (auto simp: fits_capability_def color_command_def index_of_char)
qed

theorem hex_tests_agree_witness:
  "fits_capability ''#ff8000'' (Some (1/2, 2/5)) \<and> (\<exists>p. color_command (\<lambda>_. (0, 0)) ''#ff8000'' = SetXY p)"
  using hex_tests_agree [of "''#ff8000''" "Some (1/2, 2/5)" "\<lambda>_. (0, 0)"]
  by (simp add: fits_capability_def char_at_def)

text \<open>
  C29: where a \<open>'#'\<close> occurs after the first character (such as \<open>50#1\<close>), the
  tests disagree: \<open>setDefaults\<close> takes the value for a temperature and keeps
  it on a temperature-only light, while \<open>onKeyUp\<close> sends it as an XY colour
  (\<open>cycleAction.js\<close> repeats both tests, lines 89 and 188).
\<close>

theorem hex_tests_disagree:
  assumes "CHR ''#'' \<in> set (tl v)" and "hd v \<noteq> CHR ''#''"
  shows "fits_capability v None \<and> color_command hex2xy v = SetXY (hex2xy v)"
proof -
  have ne: "v \<noteq> []" using assms(1) by auto
  then have "CHR ''#'' \<in> set v" using assms(1) by (cases v) auto
  moreover have "char_at v 0 \<noteq> ''#''" using ne assms(2) by (simp add: char_at_0_eq)
  ultimately show ?thesis
    by (simp add: fits_capability_def color_command_def index_of_char)
qed

theorem hex_tests_disagree_witness:
  "fits_capability ''50#1'' None \<and> color_command (\<lambda>_. (0, 0)) ''50#1'' = SetXY (0, 0)"
  using hex_tests_disagree [of "''50#1''" "\<lambda>_. (0, 0)"] by simp

text \<open>
  C28: a configured value that is neither a colour (no \<open>'#'\<close>) nor a number, such
  as \<open>"warm"\<close>, is not rejected: the request sets the colour temperature \<open>NaN\<close>.
\<close>

theorem color_command_nan:
  assumes "CHR ''#'' \<notin> set col" and "to_number col = NaN"
  shows "color_command hex2xy col = SetTemperature NaN"
  using assms by (simp add: color_command_def index_of_char percent_to_mired_NaN)

theorem color_command_nan_witness: "color_command (\<lambda>_. (0, 0)) ''warm'' = SetTemperature NaN"
  using color_command_nan [of "''warm''"] by (simp add: js_simps)

text \<open>
  C26: the activation path takes any identifier containing the letter \<open>l\<close> for a
  light: a configured group whose identifier contains \<open>l\<close> makes the key press
  throw a \<open>TypeError\<close> (reading \<open>id\<close> of \<open>undefined\<close>) instead of
  dispatching.
\<close>

theorem color_key_up_type_error:
  assumes "key_up_guards c ctx (load_settings inst ins) = Inr (bc, l)"
    and "color (load_settings inst ins) = Some col"
    and "CHR ''l'' \<in> set l" and "lights bc l = None"
  shows "color_on_key_up hex2xy c inst ctx ins = Inl (TypeError ''id'')"
  using assms by (simp add: color_on_key_up_def key_up_target_def index_of_char)

theorem color_key_up_type_error_witness:
  "color_on_key_up (\<lambda>_. (0, 0)) (ex_cache\<lparr>data := [''b-1'' \<mapsto> ex_bridge\<lparr>groups := [''gl-1'' \<mapsto> 2]\<rparr>]\<rparr>)
     ex_inst ''ctx-1'' (Some (ex_settings\<lparr>light := Some ''gl-1''\<rparr>)) = Inl (TypeError ''id'')"
  using color_key_up_type_error [of "ex_cache\<lparr>data := [''b-1'' \<mapsto> ex_bridge\<lparr>groups := [''gl-1'' \<mapsto> 2]\<rparr>]\<rparr>"
      "''ctx-1''" ex_inst "Some (ex_settings\<lparr>light := Some ''gl-1''\<rparr>)"
      "ex_bridge\<lparr>groups := [''gl-1'' \<mapsto> 2]\<rparr>" "''gl-1''" "''#ff8000''"]
  by (simp add: key_up_guards_def load_settings_def)

subsection \<open>setDefaults\<close>

text \<open>
  C16: defaulting is a no-op, nothing changed and nothing saved, when the configured
  bridge and light are not both known to the cache, and when the configured value
  fits the target's capability (a \<open>'#'\<close> value on a colour light, any other on a
  temperature-only one).
\<close>

theorem color_set_defaults_noop:
  assumes "\<not> target_known c (inst_settings inst) \<or>
           (defaults_target c (inst_settings inst) = Some (Some ob) \<and>
            color (inst_settings inst) = Some v \<and> fits_capability v (xy ob))"
  shows "color_set_defaults c inst = Inr (inst, [])"
  using assms
  by (auto simp: color_set_defaults_def defaults_target_unknown read_xy_def Let_def)

theorem color_set_defaults_noop_witness:
  "color_set_defaults ex_cache (ex_inst\<lparr>inst_settings := ex_settings\<lparr>light := Some ''l-7''\<rparr>\<rparr>) =
     Inr (ex_inst\<lparr>inst_settings := ex_settings\<lparr>light := Some ''l-7''\<rparr>\<rparr>, []) \<and>
   color_set_defaults ex_cache ex_inst = Inr (ex_inst, [])"
proof
  show "color_set_defaults ex_cache (ex_inst\<lparr>inst_settings := ex_settings\<lparr>light := Some ''l-7''\<rparr>\<rparr>) =
          Inr (ex_inst\<lparr>inst_settings := ex_settings\<lparr>light := Some ''l-7''\<rparr>\<rparr>, [])"
    using color_set_defaults_noop [of ex_cache "ex_inst\<lparr>inst_settings := ex_settings\<lparr>light := Some ''l-7''\<rparr>\<rparr>"]
    by (simp add: target_known_def)
  show "color_set_defaults ex_cache ex_inst = Inr (ex_inst, [])"
    using color_set_defaults_noop [of ex_cache ex_inst "\<lparr>obj_id = ''1'', xy = Some (1/2, 2/5), ct = None\<rparr>" "''#ff8000''"]
    by (simp add: defaults_target_def deref_def index_of_def fits_capability_def char_at_def)
qed

text \<open>
  C14: a missing colour, or one that does not fit the target, is replaced by the
  default of the target's capability, \<open>#ffffff\<close> for a colour light and \<open>50\<close>
  for a temperature-only one, and the settings are saved with it.
\<close>

theorem color_set_defaults_repairs:
  "defaults_target c (inst_settings inst) = Some (Some ob) \<Longrightarrow>
   (case color (inst_settings inst) of None \<Rightarrow> True | Some v \<Rightarrow> \<not> fits_capability v (xy ob)) \<Longrightarrow>
   color_set_defaults c inst =
     (let s' = (inst_settings inst)\<lparr>color := Some (if xy ob \<noteq> None then ''#ffffff'' else ''50'')\<rparr>
      in Inr (inst\<lparr>inst_settings := s'\<rparr>,
              [SaveSettings ''com.elgato.philips-hue.color'' (inst_context inst) s']))"
  by (auto simp: color_set_defaults_def read_xy_def Let_def split: option.splits)

theorem color_set_defaults_repairs_witness:
  "color_set_defaults ex_cache (ex_inst\<lparr>inst_settings := ex_settings\<lparr>light := Some ''l-2''\<rparr>\<rparr>) =
   Inr (ex_inst\<lparr>inst_settings := ex_settings\<lparr>light := Some ''l-2'', color := Some ''50''\<rparr>\<rparr>,
        [SaveSettings ''com.elgato.philips-hue.color'' ''ctx-1''
           (ex_settings\<lparr>light := Some ''l-2'', color := Some ''50''\<rparr>)])"
proof -
  let ?i = "ex_inst\<lparr>inst_settings := ex_settings\<lparr>light := Some ''l-2''\<rparr>\<rparr>"
  let ?ob = "\<lparr>obj_id = ''2'', xy = None, ct = Some (Num 366)\<rparr>"
  have t: "defaults_target ex_cache (inst_settings ?i) = Some (Some ?ob)"
    by (rule ex_defaults_target(2)) simp_all
  have f: "case color (inst_settings ?i) of None \<Rightarrow> True | Some v \<Rightarrow> \<not> fits_capability v (xy ?ob)"
    by (simp add: fits_capability_def char_at_def)
  show ?thesis using color_set_defaults_repairs [OF t f] by (simp add: Let_def)
qed

text \<open>
  C15: defaulting reaches a fixed point in one step: whenever it returns, rerunning it
  on its result changes and saves nothing, and when the target resolves, the colour
  it leaves fits the target's capability.
\<close>

theorem color_set_defaults_fits_idem:
  assumes "color_set_defaults c inst = Inr (inst', effs)"
  shows "color_set_defaults c inst' = Inr (inst', []) \<and>
         (defaults_target c (inst_settings inst) = Some (Some ob) \<longrightarrow>
          (\<exists>v. color (inst_settings inst') = Some v \<and> fits_capability v (xy ob)))"
proof
  show "color_set_defaults c inst' = Inr (inst', [])" using assms
    by (auto simp: color_set_defaults_def read_xy_def Let_def split: option.splits if_splits sum.splits)
  show "defaults_target c (inst_settings inst) = Some (Some ob) \<longrightarrow>
        (\<exists>v. color (inst_settings inst') = Some v \<and> fits_capability v (xy ob))" using assms
    by (cases "xy ob") (auto simp: color_set_defaults_def read_xy_def Let_def split: option.splits if_splits)
qed

theorem color_set_defaults_fits_idem_witness:
  "color_set_defaults ex_cache (ex_inst\<lparr>inst_settings := ex_settings\<lparr>light := Some ''l-2'', color := Some ''50''\<rparr>\<rparr>) =
     Inr (ex_inst\<lparr>inst_settings := ex_settings\<lparr>light := Some ''l-2'', color := Some ''50''\<rparr>\<rparr>, []) \<and>
   fits_capability ''50'' None"
proof -
  let ?i = "ex_inst\<lparr>inst_settings := ex_settings\<lparr>light := Some ''l-2''\<rparr>\<rparr>"
  let ?ob = "\<lparr>obj_id = ''2'', xy = None, ct = Some (Num 366)\<rparr>"
  have t: "defaults_target ex_cache (inst_settings ?i) = Some (Some ?ob)"
    by (rule ex_defaults_target(2)) simp_all
  have r: "color_set_defaults ex_cache ?i =
        Inr (ex_inst\<lparr>inst_settings := ex_settings\<lparr>light := Some ''l-2'', color := Some ''50''\<rparr>\<rparr>,
             [SaveSettings ''com.elgato.philips-hue.color'' ''ctx-1'' (ex_settings\<lparr>light := Some ''l-2'', color := Some ''50''\<rparr>)])"
    by (simp add: color_set_defaults_def defaults_target_def deref_def index_of_def read_xy_def Let_def
                  fits_capability_def char_at_def)
  show ?thesis using color_set_defaults_fits_idem [OF r, of ?ob] t by simp
qed

text \<open>
  C27: the defaulting path takes an identifier for a light only when it contains
  \<open>l-\<close>: a light whose identifier lacks it (such as \<open>light1\<close>) makes
  \<open>setDefaults\<close>, and with it the constructor and every cache refresh, throw a
  \<open>TypeError\<close> (reading \<open>xy\<close> of \<open>undefined\<close>), although the activation
  path resolves it.
\<close>

theorem color_set_defaults_type_error:
  assumes "bridge (inst_settings inst) = Some b" and "data c b = Some bc"
    and "light (inst_settings inst) = Some l" and "lights bc l \<noteq> None" and "groups bc l = None"
    and "\<not> sublist ''l-'' l"
  shows "color_set_defaults c inst = Inl (TypeError ''xy'')"
proof -
  have "index_of l ''l-'' = -1" using assms(6) index_of_found by blast
  with assms(1-5) have "defaults_target c (inst_settings inst) = Some None"
    by (simp add: defaults_target_def deref_def)
  then show ?thesis by (rule color_set_defaults_undefined)
qed

theorem color_set_defaults_type_error_witness:
  "color_set_defaults (ex_cache\<lparr>data := [''b-1'' \<mapsto> ex_bridge\<lparr>lights := [''light1'' \<mapsto> 0]\<rparr>]\<rparr>)
     (ex_inst\<lparr>inst_settings := ex_settings\<lparr>light := Some ''light1''\<rparr>\<rparr>) = Inl (TypeError ''xy'')"
  using color_set_defaults_type_error [of "ex_inst\<lparr>inst_settings := ex_settings\<lparr>light := Some ''light1''\<rparr>\<rparr>"
      "''b-1''" "ex_cache\<lparr>data := [''b-1'' \<mapsto> ex_bridge\<lparr>lights := [''light1'' \<mapsto> 0]\<rparr>]\<rparr>"
      "ex_bridge\<lparr>lights := [''light1'' \<mapsto> 0]\<rparr>" "''light1''"]
  by (simp add: sublist_Cons_right)

end
