(* ===== verification/Cycle_Action.thy ===== *)
theory Cycle_Action
  imports Action_Base
begin

text \<open>
  The cycling action, \<open>cycleAction.js\<close>. Its instance extends the base state with
  the closure variable \<open>currentColor\<close>, the index of the colour last set (\<open>-1\<close>
  before the first). \<open>cycle_on_key_up\<close> resets the index when the next one would
  leave the sequence, dispatches the entry after it, and returns the instance as
  left by the synchronous part (the reset persists even when a later read throws);
  \<open>cycle_callback\<close> is the completion callback, which advances the index by one
  on success and leaves it on failure; \<open>cycle_set_defaults\<close> repairs a missing or
  incompatible sequence. \<open>cycle_press_run\<close> composes \<open>n\<close> presses, each completed
  successfully before the next, to state what the user sees of the sequence.
  \<open>cycle_key_up_event\<close> is the entry point the host calls: its argument may be
  \<open>undefined\<close>, \<open>null\<close> or a settings object.
\<close>

section \<open>Definitions\<close>

record cycle_inst = action_inst +
  currentColor :: int

text \<open>Lines 88--129: a colour for an entry containing \<open>'#'\<close>, else a Kelvin value.\<close>

definition cycle_command :: "(string \<Rightarrow> xy) \<Rightarrow> string \<Rightarrow> command" where
  "cycle_command hex2xy col =
     (if index_of col ''#'' \<noteq> -1 then SetXY (hex2xy col) else SetTemperature (kelvin_to_mired col))"

definition cycle_on_key_up ::
  "(string \<Rightarrow> xy) \<Rightarrow> cache \<Rightarrow> cycle_inst \<Rightarrow> ctx \<Rightarrow> settings option \<Rightarrow>
   cycle_inst \<times> (js_error + effect list)" where
  "cycle_on_key_up hex2xy c inst context in_settings =
     (let s = load_settings inst in_settings in
      case key_up_guards c context s of
        Inl effs \<Rightarrow> (inst, Inr effs)
      | Inr (bc, l) \<Rightarrow>
          (case colors s of
             None \<Rightarrow> (inst, Inr [Log ''No colors configured'', ShowAlert context])
           | Some cs \<Rightarrow>
               (case key_up_target c bc l of
                  Inl e \<Rightarrow> (inst, Inl e)
                | Inr (k, a, ob) \<Rightarrow>
                    (let cur = (if currentColor inst + 1 \<ge> int (length cs) then -1
                                else currentColor inst);
                         inst' = inst\<lparr>currentColor := cur\<rparr>;
                         colorIndex = cur + 1
                     in case js_nth cs colorIndex of
                          None \<Rightarrow> (inst', Inl (TypeError ''indexOf''))
                        | Some col \<Rightarrow>
                            (inst', Inr [Dispatch (make_request bc k a ob (cycle_command hex2xy col) context)])))))"

text \<open>Lines 94--103 and 119--128: the callbacks of \<open>setXY\<close> and \<open>setTemperature\<close>.\<close>

text \<open>
  Lines 23--30, the entry point: \<open>inSettings === undefined\<close> holds only for
  \<open>undefined\<close>, which is replaced by the stored settings object; any other
  argument reaches \<open>'bridge' in inSettings\<close>, whose right operand must be an
  object (\<^const>\<open>js_in_operand\<close>): on \<open>null\<close> the operator throws a \<open>TypeError\<close>
  before any effect.
\<close>

definition cycle_key_up_event ::
  "(string \<Rightarrow> xy) \<Rightarrow> cache \<Rightarrow> cycle_inst \<Rightarrow> ctx \<Rightarrow> settings js_arg \<Rightarrow>
   cycle_inst \<times> (js_error + effect list)" where
  "cycle_key_up_event hex2xy c inst context arg =
     (let ins = (case arg of Undefined \<Rightarrow> Obj (inst_settings inst) | _ \<Rightarrow> arg)
      in case js_in_operand ins of
           Inl e \<Rightarrow> (inst, Inl e)
         | Inr s \<Rightarrow> cycle_on_key_up hex2xy c inst context (Some s))"

definition cycle_callback ::
  "cache \<Rightarrow> cycle_inst \<Rightarrow> request \<Rightarrow> bool \<Rightarrow> string \<Rightarrow> cache \<times> cycle_inst \<times> effect list" where
  "cycle_callback c inst r success err =
     (let (c', effs) = run_callback c r success err
      in (c', if success then inst\<lparr>currentColor := currentColor inst + 1\<rparr> else inst, effs))"

definition cycle_set_defaults :: "cache \<Rightarrow> cycle_inst \<Rightarrow> js_error + (cycle_inst \<times> effect list)" where
  "cycle_set_defaults c inst =
     (let s = inst_settings inst; context = inst_context inst in
      case defaults_target c s of
        None \<Rightarrow> Inr (inst, [])
      | Some lc \<Rightarrow>
          (let first = (case colors s of
                          None \<Rightarrow> Inr None
                        | Some cs \<Rightarrow> (case cs of [] \<Rightarrow> Inl (TypeError ''charAt'') | v # _ \<Rightarrow> Inr (Some v)))
           in case first of
                Inl e \<Rightarrow> Inl e
              | Inr fv \<Rightarrow>
                  (case read_xy lc of
                     Inl e \<Rightarrow> Inl e
                   | Inr x \<Rightarrow>
                       (if (case fv of None \<Rightarrow> False | Some v \<Rightarrow> fits_capability v x) then Inr (inst, [])
                        else (let s' = s\<lparr>colors := Some (if x \<noteq> None
                                                          then [''#ff0000'', ''#00ff00'', ''#0000ff'']
                                                          else [''2230'', ''4250'', ''6410''])\<rparr>
                              in Inr (inst\<lparr>inst_settings := s'\<rparr>,
                                      [SaveSettings ''com.elgato.philips-hue.cycle'' context s']))))))"

definition cycle_new_cache_available ::
  "cache \<Rightarrow> cycle_inst \<Rightarrow> js_error + (cycle_inst \<times> effect list)" where
  "cycle_new_cache_available c inst =
     (case cycle_set_defaults c inst of
        Inl e \<Rightarrow> Inl e
      | Inr (inst', effs) \<Rightarrow> Inr (inst', effs @ [CacheCallback (inst_context inst)]))"

definition cycle_action_new :: "cache \<Rightarrow> ctx \<Rightarrow> settings \<Rightarrow> js_error + (cycle_inst \<times> effect list)" where
  "cycle_action_new c context s =
     cycle_set_defaults c \<lparr>inst_context = context, inst_settings = s, currentColor = -1\<rparr>"

text \<open>
  The entry the next press dispatches from cursor \<open>cur\<close> over \<open>n\<close> entries, as the
  specification states the rule: \<open>cur + 1\<close>, or the first entry when that would
  reach the end.
\<close>

definition next_index :: "int \<Rightarrow> nat \<Rightarrow> int" where
  "next_index cur n = (if cur + 1 \<ge> int n then 0 else cur + 1)"

text \<open>
  \<open>n\<close> presses of the key without event settings, each completed successfully
  (\<open>success = True\<close>) before the next: the cache, the instance and the commands
  dispatched, in order. A press that dispatches nothing ends the run.
\<close>

fun cycle_press_run ::
  "(string \<Rightarrow> xy) \<Rightarrow> cache \<Rightarrow> cycle_inst \<Rightarrow> nat \<Rightarrow> cache \<times> cycle_inst \<times> command list" where
  "cycle_press_run hex2xy c inst 0 = (c, inst, [])"
| "cycle_press_run hex2xy c inst (Suc n) =
     (case cycle_on_key_up hex2xy c inst (inst_context inst) None of
        (inst', Inr [Dispatch r]) \<Rightarrow>
          (let (c', inst'', _) = cycle_callback c inst' r True ''''
           in (case cycle_press_run hex2xy c' inst'' n of
                 (c2, inst2, cmds) \<Rightarrow> (c2, inst2, req_cmd r # cmds)))
      | (inst', _) \<Rightarrow> (c, inst', []))"

abbreviation ex_cycle :: cycle_inst where
  "ex_cycle \<equiv> \<lparr>inst_context = ''ctx-2'',
     inst_settings = \<lparr>bridge = Some ''b-1'', light = Some ''l-1'', color = None,
                      colors = Some [''#ff0000'', ''#00ff00'', ''#0000ff'']\<rparr>,
     currentColor = -1\<rparr>"

section \<open>Lemmas\<close>

subsection \<open>onKeyUp and the completion callback\<close>

lemma next_index_bounds:
  "-1 \<le> cur \<Longrightarrow> 0 < n \<Longrightarrow> 0 \<le> next_index cur n \<and> next_index cur n < int n"
  by (simp add: next_index_def)

lemma next_index_mod:
  assumes "-1 \<le> cur" and "cur < int n"
  shows "next_index cur n = (cur + 1) mod int n"
proof (cases "cur + 1 \<ge> int n")
  case True
  with assms(2) have "cur + 1 = int n" by simp
  then show ?thesis by (simp add: next_index_def)
next
  case False
  with assms(1) show ?thesis by (simp add: next_index_def)
qed

lemma cycle_key_up_dispatch:
  assumes g: "key_up_guards c ctx (load_settings inst ins) = Inr (bc, l)"
    and cs: "colors (load_settings inst ins) = Some cs" and ne: "cs \<noteq> []"
    and t: "key_up_target c bc l = Inr (k, a, ob)"
    and cur: "-1 \<le> currentColor inst"
  shows "cycle_on_key_up hex2xy c inst ctx ins =
     (inst\<lparr>currentColor := next_index (currentColor inst) (length cs) - 1\<rparr>,
      Inr [Dispatch (make_request bc k a ob
             (cycle_command hex2xy (cs ! nat (next_index (currentColor inst) (length cs)))) ctx)])"
proof -
  let ?i = "next_index (currentColor inst) (length cs)"
  have "0 \<le> ?i \<and> ?i < int (length cs)" using next_index_bounds cur ne by simp
  then have nth: "js_nth cs ?i = Some (cs ! nat ?i)" by (simp add: js_nth_def)
  then show ?thesis
    using g cs t
    by (cases "int (length cs) \<le> currentColor inst + 1") (simp_all add: cycle_on_key_up_def next_index_def)
qed

lemma cycle_key_up_Dispatch_E:
  assumes "cycle_on_key_up hex2xy c inst ctx ins = (inst1, Inr [Dispatch r])"
  obtains bc l cs k a ob where
    "key_up_guards c ctx (load_settings inst ins) = Inr (bc, l)"
    "colors (load_settings inst ins) = Some cs" "key_up_target c bc l = Inr (k, a, ob)"
    "inst1 = inst\<lparr>currentColor := (if currentColor inst + 1 \<ge> int (length cs) then -1 else currentColor inst)\<rparr>"
    "0 \<le> currentColor inst1 + 1" "currentColor inst1 + 1 < int (length cs)"
    "r = make_request bc k a ob (cycle_command hex2xy (cs ! nat (currentColor inst1 + 1))) ctx"
  using assms key_up_guards_Inl [of c ctx "load_settings inst ins"]
  by (auto simp: cycle_on_key_up_def Let_def js_nth_def split: sum.splits option.splits if_splits)

lemma cycle_retry_same_request:
  assumes "cycle_on_key_up hex2xy c inst ctx ins = (inst1, Inr [Dispatch r])"
  shows "cycle_on_key_up hex2xy c inst1 ctx ins = (inst1, Inr [Dispatch r])"
proof -
  from assms obtain bc l cs k a ob where
    g: "key_up_guards c ctx (load_settings inst ins) = Inr (bc, l)"
    and cs: "colors (load_settings inst ins) = Some cs" and t: "key_up_target c bc l = Inr (k, a, ob)"
    and i1: "inst1 = inst\<lparr>currentColor := (if currentColor inst + 1 \<ge> int (length cs) then -1 else currentColor inst)\<rparr>"
    and lo: "0 \<le> currentColor inst1 + 1" and hi: "currentColor inst1 + 1 < int (length cs)"
    and r: "r = make_request bc k a ob (cycle_command hex2xy (cs ! nat (currentColor inst1 + 1))) ctx"
    by (rule cycle_key_up_Dispatch_E)
  have ls: "load_settings inst1 ins = load_settings inst ins"
    using i1 by (simp add: load_settings_def split: option.split)
  have "js_nth cs (currentColor inst1 + 1) = Some (cs ! nat (currentColor inst1 + 1))"
    using lo hi by (simp add: js_nth_def)
  then show ?thesis
    using g cs t hi r ls by (simp add: cycle_on_key_up_def Let_def)
qed

lemma cycle_on_key_up_settings:
  "cycle_on_key_up hex2xy c inst ctx ins = (inst1, res) \<Longrightarrow> inst_settings inst1 = inst_settings inst"
  by (auto simp: cycle_on_key_up_def Let_def split: sum.splits option.splits prod.splits)

lemma cycle_key_up_event_retry:
  "cycle_key_up_event hex2xy c inst ctx arg = (inst1, Inr [Dispatch r]) \<Longrightarrow>
   cycle_key_up_event hex2xy c inst1 ctx arg = (inst1, Inr [Dispatch r])"
proof (cases arg)
  case Undefined
  assume ku: "cycle_key_up_event hex2xy c inst ctx arg = (inst1, Inr [Dispatch r])"
  then have k: "cycle_on_key_up hex2xy c inst ctx (Some (inst_settings inst)) = (inst1, Inr [Dispatch r])"
    using Undefined by (simp add: cycle_key_up_event_def js_in_operand_def)
  then have "inst_settings inst1 = inst_settings inst" by (rule cycle_on_key_up_settings)
  then show ?thesis using cycle_retry_same_request [OF k] Undefined
    by (simp add: cycle_key_up_event_def js_in_operand_def)
qed (simp_all add: cycle_key_up_event_def js_in_operand_def cycle_retry_same_request)

lemma cycle_callback_success:
  assumes "cycle_callback c inst r True err = (c', inst', effs)"
  shows "currentColor inst' = currentColor inst + 1 \<and> inst_settings inst' = inst_settings inst \<and>
         inst_context inst' = inst_context inst \<and> data c' = data c \<and> dom (heap c') = dom (heap c)"
  using assms
  by (cases "req_cmd r")
     (clarsimp simp: cycle_callback_def run_callback_def xy_callback_def ct_callback_def)+

text \<open>One press of a correctly configured key and its successful completion, as a run step.\<close>

lemma cycle_press_run_Suc:
  assumes "inst_settings inst = s" and "bridge s = Some b" and "data c b = Some bc"
    and "light s = Some l" and "naming_convention bc" and "lights bc l = Some a \<or> groups bc l = Some a"
    and "heap c a = Some ob" and "colors s = Some cs" and "cs \<noteq> []"
    and "-1 \<le> currentColor inst"
  obtains r c' inst' where
    "cycle_press_run hex2xy c inst (Suc m) =
       (case cycle_press_run hex2xy c' inst' m of (c2, inst2, cmds) \<Rightarrow> (c2, inst2, req_cmd r # cmds))"
    and "req_ref r = a"
    and "req_cmd r = cycle_command hex2xy (cs ! nat (next_index (currentColor inst) (length cs)))"
    and "c' = fst (run_callback c r True '''')"
    and "currentColor inst' = next_index (currentColor inst) (length cs)" and "inst_settings inst' = s"
proof -
  let ?i = "next_index (currentColor inst) (length cs)"
  obtain k where g: "key_up_guards c (inst_context inst) s = Inr (bc, l)"
    and t: "key_up_target c bc l = Inr (k, a, ob)"
    using resolved_target [OF assms(2-7)] by blast
  have ls: "load_settings inst None = s" using assms(1) by (simp add: load_settings_def)
  define r where "r = make_request bc k a ob (cycle_command hex2xy (cs ! nat ?i)) (inst_context inst)"
  have ku: "cycle_on_key_up hex2xy c inst (inst_context inst) None =
            (inst\<lparr>currentColor := ?i - 1\<rparr>, Inr [Dispatch r])"
    using cycle_key_up_dispatch [of c "inst_context inst" inst None bc l cs k a ob hex2xy]
      g t ls assms(8-10) by (simp add: r_def)
  obtain c' inst' effs where cb: "cycle_callback c (inst\<lparr>currentColor := ?i - 1\<rparr>) r True '''' = (c', inst', effs)"
    by (metis prod_cases3)
  have "c' = fst (run_callback c r True '''')" using cb by (simp add: cycle_callback_def split: prod.splits)
  moreover have "currentColor inst' = ?i" "inst_settings inst' = s"
    using cycle_callback_success [OF cb] assms(1) by simp_all
  moreover have "cycle_press_run hex2xy c inst (Suc m) =
       (case cycle_press_run hex2xy c' inst' m of (c2, inst2, cmds) \<Rightarrow> (c2, inst2, req_cmd r # cmds))"
    using ku cb by (simp split: prod.split)
  ultimately show ?thesis using that by (simp add: r_def make_request_def)
qed

lemma cycle_press_run_cmds:
  assumes "inst_settings inst = s" and "bridge s = Some b" and "data c b = Some bc"
    and "light s = Some l" and "naming_convention bc" and "lights bc l = Some a \<or> groups bc l = Some a"
    and "a \<in> dom (heap c)" and "colors s = Some cs" and "cs \<noteq> []"
    and "-1 \<le> currentColor inst"
  shows "snd (snd (cycle_press_run hex2xy c inst m)) =
     map (\<lambda>j. cycle_command hex2xy (cs ! ((nat (next_index (currentColor inst) (length cs)) + j) mod length cs)))
         [0..<m]"
  using assms
proof (induction m arbitrary: c inst)
  case 0
  then show ?case by simp
next
  case (Suc m)
  let ?n = "length cs"
  let ?i = "next_index (currentColor inst) ?n"
  obtain ob where ob: "heap c a = Some ob" using Suc.prems(7) by auto
  obtain r c' inst' where run: "cycle_press_run hex2xy c inst (Suc m) =
       (case cycle_press_run hex2xy c' inst' m of (c2, inst2, cmds) \<Rightarrow> (c2, inst2, req_cmd r # cmds))"
    and cmd: "req_cmd r = cycle_command hex2xy (cs ! nat ?i)" and c': "c' = fst (run_callback c r True '''')"
    and inst': "currentColor inst' = ?i" "inst_settings inst' = s"
    by (rule cycle_press_run_Suc [OF Suc.prems(1-6) ob Suc.prems(8-10)])
  have bnd: "0 \<le> ?i \<and> ?i < int ?n" using next_index_bounds Suc.prems(9,10) by simp
  have IH: "snd (snd (cycle_press_run hex2xy c' inst' m)) =
     map (\<lambda>j. cycle_command hex2xy (cs ! ((nat (next_index ?i ?n) + j) mod ?n))) [0..<m]"
    using Suc.IH [of inst' c'] inst' c' Suc.prems bnd by simp
  have nx: "nat (next_index ?i ?n) = (nat ?i + 1) mod ?n"
    using next_index_mod [of ?i ?n] bnd by (simp add: nat_mod_distrib nat_add_distrib)
  have "nat ?i < ?n" using bnd by (simp add: nat_less_iff)
  then have idx: "nat ?i mod ?n = nat ?i" by simp
  have "snd (snd (cycle_press_run hex2xy c inst (Suc m))) = req_cmd r # snd (snd (cycle_press_run hex2xy c' inst' m))"
    using run by (simp split: prod.split)
  then show ?case
    unfolding IH nx map_upt_Suc
    by (simp add: cmd idx mod_add_left_eq)
qed

text \<open>
  What a run leaves in the descriptor it writes to: \<open>objCache.xy\<close> is set at the end
  exactly when it was set at the start or some press sent an XY colour.
\<close>

lemma cycle_press_run_xy:
  assumes "inst_settings inst = s" and "bridge s = Some b" and "data c b = Some bc"
    and "light s = Some l" and "naming_convention bc" and "lights bc l = Some a \<or> groups bc l = Some a"
    and "heap c a = Some ob" and "colors s = Some cs" and "cs \<noteq> []"
    and "-1 \<le> currentColor inst"
  shows "\<exists>ob'. heap (fst (cycle_press_run hex2xy c inst m)) a = Some ob' \<and>
           (xy ob' \<noteq> None \<longleftrightarrow> xy ob \<noteq> None \<or> (\<exists>p. SetXY p \<in> set (snd (snd (cycle_press_run hex2xy c inst m)))))"
  using assms
proof (induction m arbitrary: c inst ob)
  case 0
  then show ?case by simp
next
  case (Suc m)
  let ?i = "next_index (currentColor inst) (length cs)"
  obtain r c' inst' where run: "cycle_press_run hex2xy c inst (Suc m) =
       (case cycle_press_run hex2xy c' inst' m of (c2, inst2, cmds) \<Rightarrow> (c2, inst2, req_cmd r # cmds))"
    and ref: "req_ref r = a" and c': "c' = fst (run_callback c r True '''')"
    and inst': "currentColor inst' = ?i" "inst_settings inst' = s"
    by (rule cycle_press_run_Suc [OF Suc.prems])
  define ob1 where "ob1 = (case req_cmd r of SetXY p \<Rightarrow> ob\<lparr>xy := Some p\<rparr> | SetTemperature t \<Rightarrow> ob\<lparr>ct := Some t\<rparr>)"
  have h1: "heap c' a = Some ob1"
    using c' ref Suc.prems(7)
    by (cases "req_cmd r") (simp_all add: ob1_def run_callback_def xy_callback_def ct_callback_def
                                          heap_set_xy heap_set_ct)
  have "0 \<le> ?i" using next_index_bounds Suc.prems(9,10) by simp
  then have bnd: "-1 \<le> ?i" by simp
  have "data c' b = Some bc" using c' Suc.prems(3) by simp
  then have "\<exists>ob'. heap (fst (cycle_press_run hex2xy c' inst' m)) a = Some ob' \<and>
      (xy ob' \<noteq> None \<longleftrightarrow> xy ob1 \<noteq> None \<or> (\<exists>p. SetXY p \<in> set (snd (snd (cycle_press_run hex2xy c' inst' m)))))"
    using Suc.IH [OF inst'(2) Suc.prems(2) _ Suc.prems(4-6) h1 Suc.prems(8,9)] inst'(1) bnd by simp
  then obtain ob' where h': "heap (fst (cycle_press_run hex2xy c' inst' m)) a = Some ob'"
    and x': "xy ob' \<noteq> None \<longleftrightarrow> xy ob1 \<noteq> None \<or> (\<exists>p. SetXY p \<in> set (snd (snd (cycle_press_run hex2xy c' inst' m))))"
    by blast
  have f: "fst (cycle_press_run hex2xy c inst (Suc m)) = fst (cycle_press_run hex2xy c' inst' m)"
    and s: "snd (snd (cycle_press_run hex2xy c inst (Suc m))) = req_cmd r # snd (snd (cycle_press_run hex2xy c' inst' m))"
    using run by (simp_all split: prod.split)
  show ?case using h' x' unfolding f s by (cases "req_cmd r") (auto simp: ob1_def)
qed

subsection \<open>setDefaults\<close>

lemma fits_capability_cycle_defaults [simp]:
  "fits_capability ''#ff0000'' x \<longleftrightarrow> x \<noteq> None"
  "fits_capability ''2230'' x \<longleftrightarrow> x = None"
  by (simp_all add: fits_capability_def char_at_def)

lemma cycle_set_defaults_unknown:
  "\<not> target_known c (inst_settings inst) \<Longrightarrow> cycle_set_defaults c inst = Inr (inst, [])"
  by (simp add: cycle_set_defaults_def defaults_target_unknown)

lemma cycle_set_defaults_keeps:
  "defaults_target c (inst_settings inst) = Some (Some ob) \<Longrightarrow>
   colors (inst_settings inst) = Some (v # vs) \<Longrightarrow> fits_capability v (xy ob) \<Longrightarrow>
   cycle_set_defaults c inst = Inr (inst, [])"
  by (simp add: cycle_set_defaults_def read_xy_def Let_def)

lemma cycle_set_defaults_idem:
  "cycle_set_defaults c inst = Inr (inst', effs) \<Longrightarrow> cycle_set_defaults c inst' = Inr (inst', [])"
  by (auto simp: cycle_set_defaults_def read_xy_def Let_def
           split: option.splits list.splits if_splits sum.splits)

lemma cycle_set_defaults_cursor:
  "cycle_set_defaults c inst = Inr (inst', effs) \<Longrightarrow> currentColor inst' = currentColor inst"
  by (auto simp: cycle_set_defaults_def read_xy_def Let_def
           split: option.splits list.splits if_splits sum.splits)

lemma cycle_command_typed: "cmd_typed (cycle_command hex2xy v)"
  using js_round_integer by (simp add: cycle_command_def cmd_typed_def kelvin_to_mired_def Let_def)

section \<open>Properties\<close>

subsection \<open>onKeyUp and the cursor\<close>

text \<open>
  C8: a key press whose settings lack a bridge, a light or a colour sequence, or
  name a bridge or light the cache does not hold, logs one line, alerts the key,
  issues no request and leaves the cursor alone.
\<close>

theorem cycle_key_up_rejects:
  assumes "\<not> target_known c (load_settings inst ins) \<or> colors (load_settings inst ins) = None"
  shows "\<exists>m. cycle_on_key_up hex2xy c inst ctx ins = (inst, Inr [Log m, ShowAlert ctx])"
proof (cases "target_known c (load_settings inst ins)")
  case True
  then obtain bc l where "key_up_guards c ctx (load_settings inst ins) = Inr (bc, l)"
    using key_up_guards_known by blast
  with True assms show ?thesis by (simp add: cycle_on_key_up_def)
next
  case False
  then obtain m where "key_up_guards c ctx (load_settings inst ins) = Inl [Log m, ShowAlert ctx]"
    using key_up_guards_rejects by blast
  then show ?thesis by (simp add: cycle_on_key_up_def)
qed

theorem cycle_key_up_rejects_witness:
  "\<exists>m. cycle_on_key_up (\<lambda>_. (0, 0)) ex_cache (ex_cycle\<lparr>inst_settings := ex_settings\<rparr>) ''ctx-2'' None =
       (ex_cycle\<lparr>inst_settings := ex_settings\<rparr>, Inr [Log m, ShowAlert ''ctx-2''])"
  using cycle_key_up_rejects [of ex_cache "ex_cycle\<lparr>inst_settings := ex_settings\<rparr>" None]
  by (simp add: load_settings_def)

text \<open>
  C7: with a non-empty sequence and a cursor at \<open>-1\<close> or above, a key press whose
  target resolves never reads outside the sequence: it dispatches the entry at index
  \<open>next_index\<close> (the cursor plus one, or \<open>0\<close> at the end), which lies in
  \<open>[0, length)\<close>, and leaves the cursor one before it.
\<close>

theorem cycle_key_up_index_in_range:
  assumes "key_up_guards c ctx (load_settings inst ins) = Inr (bc, l)"
    and "colors (load_settings inst ins) = Some cs" and "cs \<noteq> []"
    and "key_up_target c bc l = Inr (k, a, ob)" and "-1 \<le> currentColor inst"
  shows "\<exists>r. cycle_on_key_up hex2xy c inst ctx ins =
              (inst\<lparr>currentColor := next_index (currentColor inst) (length cs) - 1\<rparr>, Inr [Dispatch r]) \<and>
            0 \<le> next_index (currentColor inst) (length cs) \<and>
            next_index (currentColor inst) (length cs) < int (length cs) \<and>
            req_cmd r = cycle_command hex2xy (cs ! nat (next_index (currentColor inst) (length cs)))"
  using cycle_key_up_dispatch [OF assms, of hex2xy] next_index_bounds [OF assms(5), of "length cs"] assms(3)
  by (simp add: make_request_def)

theorem cycle_key_up_index_in_range_witness:
  "\<exists>r. cycle_on_key_up (\<lambda>_. (0, 0)) ex_cache ex_cycle ''ctx-2'' None =
        (ex_cycle\<lparr>currentColor := -1\<rparr>, Inr [Dispatch r]) \<and> req_cmd r = SetXY (0, 0)"
proof -
  have "key_up_guards ex_cache ''ctx-2'' (load_settings ex_cycle None) = Inr (ex_bridge, ''l-1'')"
    by (simp add: key_up_guards_def load_settings_def)
  moreover have "key_up_target ex_cache ex_bridge ''l-1'' = Inr (Light, 0, \<lparr>obj_id = ''1'', xy = Some (1/2, 2/5), ct = None\<rparr>)"
    by (rule ex_key_up_target_l1)
  ultimately show ?thesis
    using cycle_key_up_index_in_range [of ex_cache "''ctx-2''" ex_cycle None ex_bridge "''l-1''"
        "[''#ff0000'', ''#00ff00'', ''#0000ff'']" Light 0 "\<lparr>obj_id = ''1'', xy = Some (1/2, 2/5), ct = None\<rparr>"
        "\<lambda>_. (0, 0)"]
    by (simp add: load_settings_def next_index_def cycle_command_def index_of_def)
qed

text \<open>
  C6: the sequence wraps: with the cursor on the last entry (index 2 of three after
  a successful press), the next press resets it and dispatches the first entry
  (index 0), not index 3.
\<close>

theorem cycle_key_up_wraps:
  assumes "key_up_guards c ctx (load_settings inst ins) = Inr (bc, l)"
    and "colors (load_settings inst ins) = Some cs" and "cs \<noteq> []"
    and "key_up_target c bc l = Inr (k, a, ob)" and "currentColor inst = int (length cs) - 1"
  shows "cycle_on_key_up hex2xy c inst ctx ins =
           (inst\<lparr>currentColor := -1\<rparr>, Inr [Dispatch (make_request bc k a ob (cycle_command hex2xy (cs ! 0)) ctx)])"
proof -
  have "-1 \<le> currentColor inst" using assms(5) by simp
  moreover have "next_index (currentColor inst) (length cs) = 0" using assms(5) by (simp add: next_index_def)
  ultimately show ?thesis using cycle_key_up_dispatch [OF assms(1-4), of hex2xy] by simp
qed

theorem cycle_key_up_wraps_witness:
  "cycle_on_key_up (\<lambda>_. (0, 0)) ex_cache (ex_cycle\<lparr>currentColor := 2\<rparr>) ''ctx-2'' None =
     (ex_cycle\<lparr>currentColor := -1\<rparr>,
      Inr [Dispatch (ex_request\<lparr>req_cmd := cycle_command (\<lambda>_. (0, 0)) ''#ff0000'', req_ctx := ''ctx-2''\<rparr>)])"
proof -
  have "key_up_guards ex_cache ''ctx-2'' (load_settings (ex_cycle\<lparr>currentColor := 2\<rparr>) None) = Inr (ex_bridge, ''l-1'')"
    by (simp add: key_up_guards_def load_settings_def)
  moreover have "key_up_target ex_cache ex_bridge ''l-1'' = Inr (Light, 0, \<lparr>obj_id = ''1'', xy = Some (1/2, 2/5), ct = None\<rparr>)"
    by (rule ex_key_up_target_l1)
  ultimately show ?thesis
    using cycle_key_up_wraps [of ex_cache "''ctx-2''" "ex_cycle\<lparr>currentColor := 2\<rparr>" None ex_bridge "''l-1''"
        "[''#ff0000'', ''#00ff00'', ''#0000ff'']" Light 0 "\<lparr>obj_id = ''1'', xy = Some (1/2, 2/5), ct = None\<rparr>"
        "\<lambda>_. (0, 0)"]
    by (simp add: load_settings_def make_request_def)
qed

text \<open>
  C9: a failed request does not advance the sequence: the failing callback leaves
  the cache and the cursor as they were, logs and alerts, and the next press
  dispatches the same entry to the same target again.
\<close>

theorem cycle_failure_retries_same:
  assumes "cycle_on_key_up hex2xy c inst ctx ins = (inst1, Inr [Dispatch r])"
    and "cycle_callback c inst1 r False err = (c', inst2, effs)"
  shows "c' = c \<and> inst2 = inst1 \<and> effs = [Log err, ShowAlert (req_ctx r)] \<and>
         cycle_on_key_up hex2xy c' inst2 ctx ins = (inst1, Inr [Dispatch r])"
proof -
  have "c' = c \<and> inst2 = inst1 \<and> effs = [Log err, ShowAlert (req_ctx r)]"
    using assms(2)
    by (cases "req_cmd r") (auto simp: cycle_callback_def run_callback_def xy_callback_def ct_callback_def)
  with cycle_retry_same_request [OF assms(1)] show ?thesis by simp
qed

theorem cycle_failure_retries_same_witness:
  "cycle_on_key_up (\<lambda>_. (0, 0)) ex_cache (ex_cycle\<lparr>currentColor := 0\<rparr>) ''ctx-2'' None =
     (ex_cycle\<lparr>currentColor := 0\<rparr>,
      Inr [Dispatch (ex_request\<lparr>req_cmd := cycle_command (\<lambda>_. (0, 0)) ''#00ff00'', req_ctx := ''ctx-2''\<rparr>)])"
proof -
  let ?r = "ex_request\<lparr>req_cmd := cycle_command (\<lambda>_. (0, 0)) ''#00ff00'', req_ctx := ''ctx-2''\<rparr>"
  have k: "cycle_on_key_up (\<lambda>_. (0, 0)) ex_cache (ex_cycle\<lparr>currentColor := 0\<rparr>) ''ctx-2'' None =
             (ex_cycle\<lparr>currentColor := 0\<rparr>, Inr [Dispatch ?r])"
    by (simp add: cycle_on_key_up_def load_settings_def key_up_guards_def key_up_target_def index_of_def
                  js_nth_def make_request_def)
  have cb: "cycle_callback ex_cache (ex_cycle\<lparr>currentColor := 0\<rparr>) ?r False ''timeout'' =
              (ex_cache, ex_cycle\<lparr>currentColor := 0\<rparr>, [Log ''timeout'', ShowAlert ''ctx-2''])"
    by (simp add: cycle_callback_def run_callback_def cycle_command_def index_of_def xy_callback_def)
  show ?thesis using cycle_failure_retries_same [OF k cb] by simp
qed

text \<open>
  C5: for presses that do not overlap, the code refines the specification's
  sequencing rule: from any cursor at or above the sentinel, a press followed by the
  success of its request dispatches the entry at \<^const>\<open>next_index\<close> (the cursor
  plus one, or the first entry when that would reach the end) and leaves the cursor
  on exactly that index, although the code gets there by a reset in \<open>onKeyUp\<close>
  and an increment in the callback.
\<close>

theorem cycle_refines_spec_cursor:
  assumes ku: "cycle_on_key_up hex2xy c inst ctx ins = (inst1, Inr [Dispatch r])"
    and cs: "colors (load_settings inst ins) = Some cs" and cur: "-1 \<le> currentColor inst"
    and cb: "cycle_callback c inst1 r True err = (c', inst2, effs)"
  shows "currentColor inst2 = next_index (currentColor inst) (length cs) \<and>
         req_cmd r = cycle_command hex2xy (cs ! nat (next_index (currentColor inst) (length cs)))"
proof -
  obtain bc l cs' k a ob where
    cs': "colors (load_settings inst ins) = Some cs'"
    and i1: "inst1 = inst\<lparr>currentColor := (if currentColor inst + 1 \<ge> int (length cs') then -1 else currentColor inst)\<rparr>"
    and r: "r = make_request bc k a ob (cycle_command hex2xy (cs' ! nat (currentColor inst1 + 1))) ctx"
    using ku by (rule cycle_key_up_Dispatch_E)
  have "cs' = cs" using cs cs' by simp
  moreover have "currentColor inst1 + 1 = next_index (currentColor inst) (length cs')"
    using i1 by (simp add: next_index_def)
  moreover have "currentColor inst2 = currentColor inst1 + 1" using cycle_callback_success [OF cb] by simp
  ultimately show ?thesis using r by (simp add: make_request_def)
qed

theorem cycle_refines_spec_cursor_witness:
  "currentColor (fst (snd (cycle_callback ex_cache (ex_cycle\<lparr>currentColor := -1\<rparr>)
       (make_request ex_bridge Light 0 \<lparr>obj_id = ''1'', xy = Some (1/2, 2/5), ct = None\<rparr>
          (cycle_command (\<lambda>_. (0, 0)) ''#ff0000'') ''ctx-2'') True ''ok''))) = 0"
proof -
  let ?r = "make_request ex_bridge Light 0 \<lparr>obj_id = ''1'', xy = Some (1/2, 2/5), ct = None\<rparr>
              (cycle_command (\<lambda>_. (0, 0)) ''#ff0000'') ''ctx-2''"
  let ?i = "ex_cycle\<lparr>currentColor := 2\<rparr>"
  have ku: "cycle_on_key_up (\<lambda>_. (0, 0)) ex_cache ?i ''ctx-2'' None = (ex_cycle\<lparr>currentColor := -1\<rparr>, Inr [Dispatch ?r])"
    by (simp add: cycle_on_key_up_def key_up_guards_def load_settings_def key_up_target_def index_of_def
                  js_nth_def)
  obtain c' i2 effs where cb: "cycle_callback ex_cache (ex_cycle\<lparr>currentColor := -1\<rparr>) ?r True ''ok'' = (c', i2, effs)"
    by (cases "cycle_callback ex_cache (ex_cycle\<lparr>currentColor := -1\<rparr>) ?r True ''ok''")
  have "currentColor i2 = 0"
    using cycle_refines_spec_cursor [OF ku _ _ cb, of "[''#ff0000'', ''#00ff00'', ''#0000ff'']"]
    by (simp add: load_settings_def next_index_def)
  then show ?thesis using cb by simp
qed

text \<open>
  C3: pressed \<open>m\<close> times from a fresh instance (cursor \<open>-1\<close>), each request
  succeeding before the next press, the action dispatches the entries of its
  sequence in order, wrapping around: press \<open>j\<close> sets entry \<open>j mod length\<close>.
\<close>

theorem cycle_press_run_from_start:
  assumes "inst_settings inst = s" and "bridge s = Some b" and "data c b = Some bc"
    and "light s = Some l" and "naming_convention bc" and "lights bc l = Some a \<or> groups bc l = Some a"
    and "a \<in> dom (heap c)" and "colors s = Some cs" and "cs \<noteq> []" and "currentColor inst = -1"
  shows "snd (snd (cycle_press_run hex2xy c inst m)) =
           map (\<lambda>j. cycle_command hex2xy (cs ! (j mod length cs))) [0..<m]"
proof -
  have "next_index (currentColor inst) (length cs) = 0" using assms(9,10) by (simp add: next_index_def)
  then show ?thesis using cycle_press_run_cmds [OF assms(1-9)] assms(9,10) by simp
qed

theorem cycle_press_run_from_start_witness:
  "snd (snd (cycle_press_run (\<lambda>_. (0, 0)) ex_cache ex_cycle 4)) =
     map (cycle_command (\<lambda>_. (0, 0))) [''#ff0000'', ''#00ff00'', ''#0000ff'', ''#ff0000'']"
  using cycle_press_run_from_start [of ex_cycle "inst_settings ex_cycle" "''b-1''" ex_cache ex_bridge "''l-1''" 0
      "[''#ff0000'', ''#00ff00'', ''#0000ff'']" "\<lambda>_. (0, 0)" 4] ex_bridge_convention
  by (simp add: upt_rec)

text \<open>
  C4: every entry of the sequence is eventually dispatched: from any cursor at or
  above the sentinel, \<open>length\<close> presses of a correctly configured key, each
  request succeeding before the next press, dispatch the command of every entry.
\<close>

theorem cycle_every_entry_dispatched:
  assumes "inst_settings inst = s" and "bridge s = Some b" and "data c b = Some bc"
    and "light s = Some l" and "naming_convention bc" and "lights bc l = Some a \<or> groups bc l = Some a"
    and "a \<in> dom (heap c)" and "colors s = Some cs" and "cs \<noteq> []" and "-1 \<le> currentColor inst"
    and "j < length cs"
  shows "cycle_command hex2xy (cs ! j) \<in> set (snd (snd (cycle_press_run hex2xy c inst (length cs))))"
proof -
  let ?i = "nat (next_index (currentColor inst) (length cs))"
  have "?i < length cs" using next_index_bounds assms(9,10) by (simp add: nat_less_iff)
  then obtain k where k: "k < length cs" "(?i + k) mod length cs = j"
    using mod_offset_hits assms(11) by blast
  then show ?thesis using cycle_press_run_cmds [OF assms(1-10)] by auto
qed

theorem cycle_every_entry_dispatched_witness:
  "cycle_command (\<lambda>_. (0, 0)) ''#00ff00'' \<in>
     set (snd (snd (cycle_press_run (\<lambda>_. (0, 0)) ex_cache (ex_cycle\<lparr>currentColor := 7\<rparr>) 3)))"
  using cycle_every_entry_dispatched [of "ex_cycle\<lparr>currentColor := 7\<rparr>" "inst_settings ex_cycle" "''b-1''" ex_cache
      ex_bridge "''l-1''" 0 "[''#ff0000'', ''#00ff00'', ''#0000ff'']" 1 "\<lambda>_. (0, 0)"] ex_bridge_convention
  by (simp del: cycle_press_run.simps add: numeral_3_eq_3)

text \<open>
  C21: a descriptor's capability can change at run time, although the
  specification says it never does. Cycle defaulting tests only the first entry of
  the sequence, so on a temperature-only descriptor (\<open>objCache.xy\<close> unset) a
  sequence whose first entry is a temperature is kept whatever its later entries
  are; if one of them contains \<open>'#'\<close>, \<open>length\<close> successful presses from any
  cursor send it as an XY colour, whose callback sets \<open>objCache.xy\<close>: afterwards
  the descriptor counts as colour-capable.
\<close>

theorem cycle_capability_flip:
  assumes "inst_settings inst = s" and "bridge s = Some b" and "data c b = Some bc"
    and "light s = Some l" and "naming_convention bc" and "lights bc l = Some a \<or> groups bc l = Some a"
    and "heap c a = Some ob" and "colors s = Some cs" and "-1 \<le> currentColor inst"
    and "defaults_target c s = Some (Some ob)" and "xy ob = None"
    and "cs = v # vs" and "fits_capability v None"
    and "j < length cs" and "CHR ''#'' \<in> set (cs ! j)"
  shows "cycle_set_defaults c inst = Inr (inst, []) \<and>
         (\<exists>ob'. heap (fst (cycle_press_run hex2xy c inst (length cs))) a = Some ob' \<and> xy ob' \<noteq> None)"
proof
  show "cycle_set_defaults c inst = Inr (inst, [])"
    using cycle_set_defaults_keeps [of c inst ob v vs] assms(1,8,10-13) by simp
next
  have ne: "cs \<noteq> []" using assms(12) by simp
  let ?i = "nat (next_index (currentColor inst) (length cs))"
  have "?i < length cs" using next_index_bounds ne assms(9) by (simp add: nat_less_iff)
  then obtain k where "k < length cs" "(?i + k) mod length cs = j"
    using mod_offset_hits assms(14) by blast
  moreover have "a \<in> dom (heap c)" using assms(7) by blast
  ultimately have "cycle_command hex2xy (cs ! j) \<in> set (snd (snd (cycle_press_run hex2xy c inst (length cs))))"
    using cycle_press_run_cmds [OF assms(1-6) _ assms(8) ne assms(9)] by auto
  moreover have "cycle_command hex2xy (cs ! j) = SetXY (hex2xy (cs ! j))"
    using assms(15) by (simp add: cycle_command_def index_of_char)
  ultimately show "\<exists>ob'. heap (fst (cycle_press_run hex2xy c inst (length cs))) a = Some ob' \<and> xy ob' \<noteq> None"
    using cycle_press_run_xy [OF assms(1-8) ne assms(9), of hex2xy "length cs"] by (simp only:) blast
qed

theorem cycle_capability_flip_witness:
  "cycle_set_defaults ex_cache (ex_cycle\<lparr>inst_settings := \<lparr>bridge = Some ''b-1'', light = Some ''l-2'', color = None,
                                                           colors = Some [''2230'', ''#ff0000'']\<rparr>\<rparr>) =
     Inr (ex_cycle\<lparr>inst_settings := \<lparr>bridge = Some ''b-1'', light = Some ''l-2'', color = None,
                                    colors = Some [''2230'', ''#ff0000'']\<rparr>\<rparr>, []) \<and>
   (\<exists>ob'. heap (fst (cycle_press_run (\<lambda>_. (1, 0)) ex_cache
              (ex_cycle\<lparr>inst_settings := \<lparr>bridge = Some ''b-1'', light = Some ''l-2'', color = None,
                                          colors = Some [''2230'', ''#ff0000'']\<rparr>\<rparr>) 2)) 1 = Some ob' \<and>
           xy ob' \<noteq> None)"
proof -
  let ?s = "\<lparr>bridge = Some ''b-1'', light = Some ''l-2'', color = None, colors = Some [''2230'', ''#ff0000'']\<rparr>"
  let ?ob = "\<lparr>obj_id = ''2'', xy = None, ct = Some (Num 366)\<rparr>"
  have t: "defaults_target ex_cache ?s = Some (Some ?ob)" by (rule ex_defaults_target(2)) simp_all
  show ?thesis
    using cycle_capability_flip [of "ex_cycle\<lparr>inst_settings := ?s\<rparr>" ?s "''b-1''" ex_cache ex_bridge "''l-2''" 1 ?ob
        "[''2230'', ''#ff0000'']" "''2230''" "[''#ff0000'']" 1 "\<lambda>_. (1, 0)"] t ex_bridge_convention
    by (simp add: fits_capability_def char_at_def numeral_2_eq_2 del: cycle_press_run.simps)
qed

text \<open>
  C30: an empty colour sequence makes a key press throw a \<open>TypeError\<close> (reading
  \<open>indexOf\<close> of \<open>colors[0]\<close>, which is \<open>undefined\<close>) after it has reset the
  cursor to \<open>-1\<close>; nothing is dispatched.
\<close>

theorem cycle_key_up_empty:
  assumes "key_up_guards c ctx (load_settings inst ins) = Inr (bc, l)"
    and "colors (load_settings inst ins) = Some []"
    and "key_up_target c bc l = Inr (k, a, ob)"
    and "-1 \<le> currentColor inst"
  shows "cycle_on_key_up hex2xy c inst ctx ins = (inst\<lparr>currentColor := -1\<rparr>, Inl (TypeError ''indexOf''))"
  using assms by (simp add: cycle_on_key_up_def js_nth_def)

theorem cycle_key_up_empty_witness:
  "cycle_on_key_up (\<lambda>_. (0, 0)) ex_cache (ex_cycle\<lparr>currentColor := 1\<rparr>) ''ctx-2''
     (Some ((inst_settings ex_cycle)\<lparr>colors := Some []\<rparr>)) = (ex_cycle, Inl (TypeError ''indexOf''))"
proof -
  have "key_up_guards ex_cache ''ctx-2'' (load_settings (ex_cycle\<lparr>currentColor := 1\<rparr>)
          (Some ((inst_settings ex_cycle)\<lparr>colors := Some []\<rparr>))) = Inr (ex_bridge, ''l-1'')"
    by (simp add: key_up_guards_def load_settings_def)
  moreover have "key_up_target ex_cache ex_bridge ''l-1'' = Inr (Light, 0, \<lparr>obj_id = ''1'', xy = Some (1/2, 2/5), ct = None\<rparr>)"
    by (rule ex_key_up_target_l1)
  ultimately show ?thesis
    using cycle_key_up_empty [of ex_cache "''ctx-2''" "ex_cycle\<lparr>currentColor := 1\<rparr>"
        "Some ((inst_settings ex_cycle)\<lparr>colors := Some []\<rparr>)" ex_bridge "''l-1''" Light 0]
    by (simp add: load_settings_def)
qed

subsection \<open>setDefaults\<close>

text \<open>
  C18: a missing sequence, or one whose first entry does not fit the target, is
  replaced by the default of the target's capability, red, green and blue for a
  colour light and 2230 K, 4250 K and 6410 K for a temperature-only one, and the
  settings are saved with it; the cursor is not touched. These are the values the
  code (lines 197--204) and the specification set; the comments on those lines,
  copied from \<open>colorAction.js\<close>, say ``Set white as the default
  color/temperature'', which the sequences are not.
\<close>

theorem cycle_set_defaults_repairs:
  "defaults_target c (inst_settings inst) = Some (Some ob) \<Longrightarrow>
   (case colors (inst_settings inst) of None \<Rightarrow> True | Some [] \<Rightarrow> False
    | Some (v # _) \<Rightarrow> \<not> fits_capability v (xy ob)) \<Longrightarrow>
   cycle_set_defaults c inst =
     (let s' = (inst_settings inst)\<lparr>colors := Some (if xy ob \<noteq> None
                                                 then [''#ff0000'', ''#00ff00'', ''#0000ff'']
                                                 else [''2230'', ''4250'', ''6410''])\<rparr>
      in Inr (inst\<lparr>inst_settings := s'\<rparr>,
              [SaveSettings ''com.elgato.philips-hue.cycle'' (inst_context inst) s']))"
  by (auto simp: cycle_set_defaults_def read_xy_def Let_def split: option.splits list.splits)

theorem cycle_set_defaults_repairs_witness:
  "cycle_set_defaults ex_cache (ex_cycle\<lparr>inst_settings := ex_settings\<lparr>light := Some ''l-2''\<rparr>\<rparr>) =
   Inr (ex_cycle\<lparr>inst_settings := ex_settings\<lparr>light := Some ''l-2'', colors := Some [''2230'', ''4250'', ''6410'']\<rparr>\<rparr>,
        [SaveSettings ''com.elgato.philips-hue.cycle'' ''ctx-2''
           (ex_settings\<lparr>light := Some ''l-2'', colors := Some [''2230'', ''4250'', ''6410'']\<rparr>)])"
proof -
  let ?i = "ex_cycle\<lparr>inst_settings := ex_settings\<lparr>light := Some ''l-2''\<rparr>\<rparr>"
  let ?ob = "\<lparr>obj_id = ''2'', xy = None, ct = Some (Num 366)\<rparr>"
  have t: "defaults_target ex_cache (inst_settings ?i) = Some (Some ?ob)"
    by (rule ex_defaults_target(2)) simp_all
  have f: "case colors (inst_settings ?i) of None \<Rightarrow> True | Some [] \<Rightarrow> False
           | Some (v # _) \<Rightarrow> \<not> fits_capability v (xy ?ob)"
    by simp
  show ?thesis using cycle_set_defaults_repairs [OF t f] by (simp add: Let_def)
qed

text \<open>
  C19: whenever the target resolves and defaulting returns, the sequence it leaves
  is non-empty and its first entry fits the target's capability.
\<close>

theorem cycle_set_defaults_fits:
  "defaults_target c (inst_settings inst) = Some (Some ob) \<Longrightarrow>
   cycle_set_defaults c inst = Inr (inst', effs) \<Longrightarrow>
   \<exists>v vs. colors (inst_settings inst') = Some (v # vs) \<and> fits_capability v (xy ob)"
  by (cases "xy ob")
     (auto simp: cycle_set_defaults_def read_xy_def Let_def split: option.splits list.splits if_splits)

theorem cycle_set_defaults_fits_witness:
  "\<exists>v vs. colors (inst_settings ex_cycle) = Some (v # vs) \<and> fits_capability v (Some (1/2, 2/5))"
proof -
  have t: "defaults_target ex_cache (inst_settings ex_cycle) = Some (Some \<lparr>obj_id = ''1'', xy = Some (1/2, 2/5), ct = None\<rparr>)"
    by (rule ex_defaults_target(1)) simp_all
  have r: "cycle_set_defaults ex_cache ex_cycle = Inr (ex_cycle, [])"
    by (simp add: cycle_set_defaults_def defaults_target_def deref_def index_of_def read_xy_def Let_def
                  fits_capability_def char_at_def)
  show ?thesis using cycle_set_defaults_fits [OF t r] by simp
qed

text \<open>
  C31: an empty colour sequence makes \<open>setDefaults\<close>, and with it the constructor
  and every cache refresh, throw a \<open>TypeError\<close> (reading \<open>charAt\<close> of
  \<open>colors[0]\<close>) once the target is known, instead of repairing the sequence.
\<close>

theorem cycle_set_defaults_empty:
  "defaults_target c (inst_settings inst) = Some lc \<Longrightarrow> colors (inst_settings inst) = Some [] \<Longrightarrow>
   cycle_set_defaults c inst = Inl (TypeError ''charAt'')"
  by (simp add: cycle_set_defaults_def)

theorem cycle_set_defaults_empty_witness:
  "cycle_set_defaults ex_cache (ex_cycle\<lparr>inst_settings := (inst_settings ex_cycle)\<lparr>colors := Some []\<rparr>\<rparr>) =
   Inl (TypeError ''charAt'')"
  using cycle_set_defaults_empty [of ex_cache "ex_cycle\<lparr>inst_settings := (inst_settings ex_cycle)\<lparr>colors := Some []\<rparr>\<rparr>"
      "Some \<lparr>obj_id = ''1'', xy = Some (1/2, 2/5), ct = None\<rparr>"]
  by (simp add: defaults_target_def deref_def index_of_def)

end
