(* ===== verification/Plugin_System.thy ===== *)
theory Plugin_System
  imports Color_Action Cycle_Action
begin

text \<open>
  The plugin as a whole: the host creates action instances (\<open>new ColorAction\<close>,
  \<open>new CycleAction\<close>), delivers key presses and settings to them, and announces
  cache refreshes (\<open>newCacheAvailable\<close>); each key press may start a request to
  the bridge whose completion callback runs later, in any order relative to the
  other events. The dispatch of host events to instances (\<open>main.js\<close>) and the
  transport are not part of the sources; they are modelled from the specification
  as the events of a step function over the plugin state, whose handlers are the
  ones of \<open>Color_Action\<close> and \<open>Cycle_Action\<close>.

  In-flight requests are kept in a list with the instance that issued them, and a
  \<open>Complete\<close> event may complete any of them, so that every interleaving of
  presses, completions and refreshes is a run. Reachable states are an inductive
  predicate; the invariants below are proved by rule induction over it.
\<close>

section \<open>State and events\<close>

datatype action_kind = ColorKind | CycleKind

datatype plugin_inst = ColorInst action_inst | CycleInst cycle_inst

record plugin_state =
  ps_cache :: cache
  ps_insts :: "ctx \<rightharpoonup> plugin_inst"
  ps_pending :: "(ctx \<times> request) list"
  ps_effects :: "effect list"
  ps_errors :: "js_error list"

datatype event =
    Appear ctx action_kind settings
  | ReceiveSettings ctx settings
  | KeyUp ctx "settings js_arg"
  | Complete nat bool string
  | Refresh "string \<rightharpoonup> bridge_cache" "addr \<rightharpoonup> obj_cache"
  | NewCache ctx

section \<open>Instances\<close>

text \<open>The requests a handler's effects dispatch, in order.\<close>

fun dispatched :: "effect list \<Rightarrow> request list" where
  "dispatched [] = []"
| "dispatched (Dispatch r # es) = r # dispatched es"
| "dispatched (_ # es) = dispatched es"

definition inst_new ::
  "cache \<Rightarrow> ctx \<Rightarrow> action_kind \<Rightarrow> settings \<Rightarrow> js_error + (plugin_inst \<times> effect list)" where
  "inst_new c context k s =
     (case k of
        ColorKind \<Rightarrow> map_sum id (map_prod ColorInst id) (color_action_new c context s)
      | CycleKind \<Rightarrow> map_sum id (map_prod CycleInst id) (cycle_action_new c context s))"

text \<open>\<open>Action.setSettings\<close>: the host's \<open>didReceiveSettings\<close> replaces the settings.\<close>

definition inst_set_settings :: "plugin_inst \<Rightarrow> settings \<Rightarrow> plugin_inst" where
  "inst_set_settings ai s =
     (case ai of
        ColorInst i \<Rightarrow> ColorInst (i\<lparr>inst_settings := s\<rparr>)
      | CycleInst i \<Rightarrow> CycleInst (i\<lparr>inst_settings := s\<rparr>))"

definition inst_key_up ::
  "(string \<Rightarrow> xy) \<Rightarrow> cache \<Rightarrow> plugin_inst \<Rightarrow> ctx \<Rightarrow> settings js_arg \<Rightarrow>
   plugin_inst \<times> (js_error + effect list)" where
  "inst_key_up hex2xy c ai context arg =
     (case ai of
        ColorInst i \<Rightarrow> (ai, color_key_up_event hex2xy c i context arg)
      | CycleInst i \<Rightarrow> apfst CycleInst (cycle_key_up_event hex2xy c i context arg))"

definition inst_callback ::
  "cache \<Rightarrow> plugin_inst \<Rightarrow> request \<Rightarrow> bool \<Rightarrow> string \<Rightarrow> cache \<times> plugin_inst \<times> effect list" where
  "inst_callback c ai r success err =
     (case ai of
        ColorInst i \<Rightarrow> (let (c', effs) = run_callback c r success err in (c', ai, effs))
      | CycleInst i \<Rightarrow> (let (c', i', effs) = cycle_callback c i r success err in (c', CycleInst i', effs)))"

definition inst_new_cache :: "cache \<Rightarrow> plugin_inst \<Rightarrow> js_error + (plugin_inst \<times> effect list)" where
  "inst_new_cache c ai =
     (case ai of
        ColorInst i \<Rightarrow> map_sum id (map_prod ColorInst id) (color_new_cache_available c i)
      | CycleInst i \<Rightarrow> map_sum id (map_prod CycleInst id) (cycle_new_cache_available c i))"

section \<open>The step function\<close>

definition remove_nth :: "nat \<Rightarrow> 'a list \<Rightarrow> 'a list" where
  "remove_nth i xs = take i xs @ drop (Suc i) xs"

text \<open>
  A thrown \<open>TypeError\<close> escapes the handler: what the handler did before the
  throw stays (the cycle action's cursor reset), the error is recorded, and the
  effects the handler would have produced after it do not happen. The transport
  treats every handler alike: a request dispatched by a key press or by a
  completion callback joins the in-flight requests.
\<close>

definition sys_step :: "(string \<Rightarrow> xy) \<Rightarrow> plugin_state \<Rightarrow> event \<Rightarrow> plugin_state" where
  "sys_step hex2xy st ev =
     (case ev of
        Appear cx k s \<Rightarrow>
          (case inst_new (ps_cache st) cx k s of
             Inl e \<Rightarrow> st\<lparr>ps_errors := ps_errors st @ [e]\<rparr>
           | Inr (ai, effs) \<Rightarrow>
               st\<lparr>ps_insts := (ps_insts st)(cx \<mapsto> ai), ps_effects := ps_effects st @ effs\<rparr>)
      | ReceiveSettings cx s \<Rightarrow>
          (case ps_insts st cx of
             None \<Rightarrow> st
           | Some ai \<Rightarrow> st\<lparr>ps_insts := (ps_insts st)(cx \<mapsto> inst_set_settings ai s)\<rparr>)
      | KeyUp cx ins \<Rightarrow>
          (case ps_insts st cx of
             None \<Rightarrow> st
           | Some ai \<Rightarrow>
               (case inst_key_up hex2xy (ps_cache st) ai cx ins of
                  (ai', Inl e) \<Rightarrow>
                    st\<lparr>ps_insts := (ps_insts st)(cx \<mapsto> ai'), ps_errors := ps_errors st @ [e]\<rparr>
                | (ai', Inr effs) \<Rightarrow>
                    st\<lparr>ps_insts := (ps_insts st)(cx \<mapsto> ai'),
                       ps_pending := ps_pending st @ map (Pair cx) (dispatched effs),
                       ps_effects := ps_effects st @ effs\<rparr>))
      | Complete i success err \<Rightarrow>
          (if i < length (ps_pending st) then
             (let (cx, r) = ps_pending st ! i; rest = remove_nth i (ps_pending st) in
              case ps_insts st cx of
                None \<Rightarrow> st\<lparr>ps_pending := rest\<rparr>
              | Some ai \<Rightarrow>
                  (let (c', ai', effs) = inst_callback (ps_cache st) ai r success err in
                   st\<lparr>ps_cache := c', ps_insts := (ps_insts st)(cx \<mapsto> ai'),
                      ps_pending := rest @ map (Pair cx) (dispatched effs),
                      ps_effects := ps_effects st @ effs\<rparr>))
           else st)
      | Refresh d objs \<Rightarrow> st\<lparr>ps_cache := refresh (ps_cache st) d objs\<rparr>
      | NewCache cx \<Rightarrow>
          (case ps_insts st cx of
             None \<Rightarrow> st
           | Some ai \<Rightarrow>
               (case inst_new_cache (ps_cache st) ai of
                  Inl e \<Rightarrow> st\<lparr>ps_errors := ps_errors st @ [e]\<rparr>
                | Inr (ai', effs) \<Rightarrow>
                    st\<lparr>ps_insts := (ps_insts st)(cx \<mapsto> ai'), ps_effects := ps_effects st @ effs\<rparr>)))"

text \<open>
  The host's side of the contract: an instance appears once per context, only an
  in-flight request completes, and a refresh allocates its new descriptors at fresh
  addresses and leaves no dangling reference.
\<close>

definition enabled :: "plugin_state \<Rightarrow> event \<Rightarrow> bool" where
  "enabled st ev =
     (case ev of
        Appear cx k s \<Rightarrow> ps_insts st cx = None
      | Complete i success err \<Rightarrow> i < length (ps_pending st)
      | Refresh d objs \<Rightarrow> refresh_ok (ps_cache st) d objs
      | _ \<Rightarrow> True)"

definition init_state :: "cache \<Rightarrow> plugin_state" where
  "init_state c = \<lparr>ps_cache = c, ps_insts = Map.empty, ps_pending = [], ps_effects = [], ps_errors = []\<rparr>"

inductive reachable :: "(string \<Rightarrow> xy) \<Rightarrow> plugin_state \<Rightarrow> bool" for hex2xy where
  init: "cache_wf c \<Longrightarrow> reachable hex2xy (init_state c)"
| step: "reachable hex2xy st \<Longrightarrow> enabled st ev \<Longrightarrow> reachable hex2xy (sys_step hex2xy st ev)"

text \<open>A run of events, \<^const>\<open>None\<close> if one of them is not enabled when it comes.\<close>

fun sys_run :: "(string \<Rightarrow> xy) \<Rightarrow> plugin_state \<Rightarrow> event list \<Rightarrow> plugin_state option" where
  "sys_run hex2xy st [] = Some st"
| "sys_run hex2xy st (ev # evs) =
     (if enabled st ev then sys_run hex2xy (sys_step hex2xy st ev) evs else None)"

section \<open>Invariants\<close>

text \<open>A cycle instance's cursor is never below the sentinel \<open>-1\<close>.\<close>

definition cursor_ok :: "plugin_inst \<Rightarrow> bool" where
  "cursor_ok ai = (case ai of ColorInst i \<Rightarrow> True | CycleInst i \<Rightarrow> -1 \<le> currentColor i)"

text \<open>
  Every in-flight request refers to a descriptor that exists and belongs to an
  instance that exists, so its completion always has something to write to.
\<close>

definition pending_live :: "cache \<Rightarrow> (ctx \<rightharpoonup> plugin_inst) \<Rightarrow> (ctx \<times> request) list \<Rightarrow> bool" where
  "pending_live c m ps \<longleftrightarrow> (\<forall>p \<in> set ps. req_ref (snd p) \<in> dom (heap c) \<and> fst p \<in> dom m)"

definition cursors_ok :: "(ctx \<rightharpoonup> plugin_inst) \<Rightarrow> bool" where
  "cursors_ok m \<longleftrightarrow> (\<forall>ai \<in> ran m. cursor_ok ai)"

definition sys_inv :: "plugin_state \<Rightarrow> bool" where
  "sys_inv st \<longleftrightarrow>
     cache_wf (ps_cache st) \<and> pending_live (ps_cache st) (ps_insts st) (ps_pending st) \<and>
     cursors_ok (ps_insts st)"

text \<open>Every in-flight request carries a well-typed command (\<^const>\<open>cmd_typed\<close>).\<close>

definition pending_typed :: "plugin_state \<Rightarrow> bool" where
  "pending_typed st \<longleftrightarrow> (\<forall>p \<in> set (ps_pending st). cmd_typed (req_cmd (snd p)))"

section \<open>Example states\<close>

text \<open>
  A stand-in for \<open>Bridge.hex2xy\<close> that tells the three default colours apart, and
  the plugin state right after the example cycle instance appeared on \<open>ctx-2\<close>.
\<close>

abbreviation ex_hex2xy :: "string \<Rightarrow> xy" where
  "ex_hex2xy v \<equiv> (if v = ''#ff0000'' then (1, 0) else if v = ''#00ff00'' then (0, 1) else (0, 0))"

abbreviation ex_cycle_state :: plugin_state where
  "ex_cycle_state \<equiv> init_state ex_cache\<lparr>ps_insts := [''ctx-2'' \<mapsto> CycleInst ex_cycle]\<rparr>"

section \<open>Lemmas\<close>

subsection \<open>Handlers, instance by instance\<close>

lemma dispatched_append [simp]: "dispatched (xs @ ys) = dispatched xs @ dispatched ys"
  by (induction xs rule: dispatched.induct) simp_all

lemma key_up_guards_no_dispatch: "key_up_guards c ctx s = Inl effs \<Longrightarrow> dispatched effs = []"
  by (auto simp: key_up_guards_def split: option.splits if_splits)

lemma color_key_up_live:
  "color_on_key_up hex2xy c i ctx ins = Inr effs \<Longrightarrow> r \<in> set (dispatched effs) \<Longrightarrow>
   req_ref r \<in> dom (heap c)"
  by (auto simp: color_on_key_up_def make_request_def Let_def dest: key_up_guards_no_dispatch key_up_target_heap
           split: sum.splits option.splits prod.splits)

lemma cycle_key_up_live:
  "cycle_on_key_up hex2xy c i ctx ins = (i', Inr effs) \<Longrightarrow> r \<in> set (dispatched effs) \<Longrightarrow>
   req_ref r \<in> dom (heap c)"
  by (auto simp: cycle_on_key_up_def make_request_def Let_def dest: key_up_guards_no_dispatch key_up_target_heap
           split: sum.splits option.splits prod.splits)

lemma cycle_key_up_cursor:
  "cycle_on_key_up hex2xy c i ctx ins = (i', res) \<Longrightarrow>
   currentColor i' = currentColor i \<or> currentColor i' = -1"
  by (auto simp: cycle_on_key_up_def Let_def split: sum.splits option.splits prod.splits)

text \<open>A key event that returns effects ran the handler of its action on some settings argument.\<close>

lemma inst_key_up_Inr:
  assumes "inst_key_up hex2xy c ai ctx arg = (ai', Inr effs)"
  shows "(\<exists>i ins. ai = ColorInst i \<and> color_on_key_up hex2xy c i ctx ins = Inr effs) \<or>
         (\<exists>i i' ins. ai = CycleInst i \<and> cycle_on_key_up hex2xy c i ctx ins = (i', Inr effs))"
proof (cases ai)
  case (ColorInst i)
  then show ?thesis using assms
    by (cases arg) (auto simp: inst_key_up_def color_key_up_event_def)
next
  case (CycleInst i)
  then show ?thesis using assms
    by (cases arg) (auto simp: inst_key_up_def cycle_key_up_event_def js_in_operand_def apfst_def map_prod_def
                         split: prod.splits)
qed

lemma inst_key_up_live:
  "inst_key_up hex2xy c ai ctx arg = (ai', Inr effs) \<Longrightarrow> r \<in> set (dispatched effs) \<Longrightarrow>
   req_ref r \<in> dom (heap c)"
  using color_key_up_live cycle_key_up_live by (blast dest: inst_key_up_Inr)

lemma cycle_key_up_event_cursor:
  "cycle_key_up_event hex2xy c i ctx arg = (i', res) \<Longrightarrow>
   currentColor i' = currentColor i \<or> currentColor i' = -1"
  by (cases arg) (auto simp: cycle_key_up_event_def js_in_operand_def dest: cycle_key_up_cursor)

lemma inst_key_up_cursor:
  "inst_key_up hex2xy c ai ctx arg = (ai', res) \<Longrightarrow> cursor_ok ai \<Longrightarrow> cursor_ok ai'"
  by (cases ai) (auto simp: inst_key_up_def cursor_ok_def apfst_def map_prod_def split: prod.splits
                      dest: cycle_key_up_event_cursor)

lemma inst_callback_cache:
  "inst_callback c ai r success err = (c', ai', effs) \<Longrightarrow> c' = fst (run_callback c r success err)"
  by (cases ai) (auto simp: inst_callback_def cycle_callback_def split: prod.splits)

text \<open>No completion callback of either action sends a request (they only record state, log and alert).\<close>

lemma inst_callback_no_dispatch:
  "inst_callback c ai r success err = (c', ai', effs) \<Longrightarrow> dispatched effs = []"
  by (cases ai) (auto simp: inst_callback_def cycle_callback_def run_callback_def xy_callback_def
                            ct_callback_def split: prod.splits command.splits if_splits)

lemma inst_callback_cursor:
  "inst_callback c ai r success err = (c', ai', effs) \<Longrightarrow> cursor_ok ai \<Longrightarrow> cursor_ok ai'"
  by (cases ai) (auto simp: inst_callback_def cycle_callback_def cursor_ok_def split: prod.splits)

lemma inst_new_cursor: "inst_new c ctx k s = Inr (ai, effs) \<Longrightarrow> cursor_ok ai"
  by (cases k) (auto simp: inst_new_def cycle_action_new_def cursor_ok_def dest!: cycle_set_defaults_cursor)

lemma inst_new_cache_cursor:
  "inst_new_cache c ai = Inr (ai', effs) \<Longrightarrow> cursor_ok ai \<Longrightarrow> cursor_ok ai'"
  by (cases ai) (auto simp: inst_new_cache_def cycle_new_cache_available_def color_new_cache_available_def
                      cursor_ok_def split: sum.splits prod.splits dest!: cycle_set_defaults_cursor)

lemma inst_set_settings_cursor: "cursor_ok ai \<Longrightarrow> cursor_ok (inst_set_settings ai s)"
  by (cases ai) (simp_all add: inst_set_settings_def cursor_ok_def)

lemma set_remove_nth: "set (remove_nth i xs) \<subseteq> set xs"
  by (auto simp: remove_nth_def dest: in_set_takeD in_set_dropD)

lemma length_remove_nth [simp]: "i < length xs \<Longrightarrow> length (remove_nth i xs) = length xs - 1"
  by (simp add: remove_nth_def)

lemma sys_step_Complete_pending:
  "i < length (ps_pending st) \<Longrightarrow>
   ps_pending (sys_step hex2xy st (Complete i success err)) = remove_nth i (ps_pending st)"
  by (auto simp: sys_step_def Let_def dest: inst_callback_no_dispatch split: prod.splits option.splits)

lemma refresh_ok_dom: "refresh_ok c d objs \<Longrightarrow> dom (heap c) \<subseteq> dom (heap (refresh c d objs))"
  by (auto simp: refresh_def)

subsection \<open>The invariant's parts\<close>

lemma cursors_ok_upd: "cursors_ok m \<Longrightarrow> cursor_ok v \<Longrightarrow> cursors_ok (m(k \<mapsto> v))"
  by (auto simp: cursors_ok_def ran_def)

lemma cursors_ok_D: "cursors_ok m \<Longrightarrow> m k = Some v \<Longrightarrow> cursor_ok v"
  by (auto simp: cursors_ok_def ran_def)

lemma pending_live_mono:
  assumes "pending_live c m ps" and "set ps' \<subseteq> set ps"
    and "dom (heap c) \<subseteq> dom (heap c')" and "dom m \<subseteq> dom m'"
  shows "pending_live c' m' ps'"
  using assms unfolding pending_live_def by blast

lemma pending_live_upd: "pending_live c m ps \<Longrightarrow> pending_live c (m(k \<mapsto> v)) ps"
  by (erule pending_live_mono) auto

lemma pending_live_append:
  "pending_live c m ps \<Longrightarrow> pending_live c m qs \<Longrightarrow> pending_live c m (ps @ qs)"
  by (auto simp: pending_live_def)

subsection \<open>Preservation, event by event\<close>

lemma sys_inv_key_up:
  assumes inv: "sys_inv st"
  shows "sys_inv (sys_step hex2xy st (KeyUp cx ins))"
proof (cases "ps_insts st cx")
  case None
  then show ?thesis using inv by (simp add: sys_step_def)
next
  case (Some ai)
  obtain ai' res where ku: "inst_key_up hex2xy (ps_cache st) ai cx ins = (ai', res)"
    by (cases "inst_key_up hex2xy (ps_cache st) ai cx ins")
  have "cursor_ok ai" using inv Some by (auto simp: sys_inv_def intro: cursors_ok_D)
  with ku have cur: "cursors_ok ((ps_insts st)(cx \<mapsto> ai'))"
    using inv by (auto simp: sys_inv_def intro: cursors_ok_upd inst_key_up_cursor)
  have pl: "pending_live (ps_cache st) ((ps_insts st)(cx \<mapsto> ai')) (ps_pending st)"
    using inv by (simp add: sys_inv_def pending_live_upd)
  show ?thesis
  proof (cases res)
    case (Inl e)
    then show ?thesis using inv Some ku cur pl by (simp add: sys_step_def sys_inv_def)
  next
    case (Inr effs)
    have "pending_live (ps_cache st) ((ps_insts st)(cx \<mapsto> ai')) (map (Pair cx) (dispatched effs))"
      using inst_key_up_live [OF ku [unfolded Inr]] by (auto simp: pending_live_def)
    with pl have "pending_live (ps_cache st) ((ps_insts st)(cx \<mapsto> ai'))
                    (ps_pending st @ map (Pair cx) (dispatched effs))"
      by (rule pending_live_append)
    then show ?thesis using inv Some ku cur Inr by (simp add: sys_step_def sys_inv_def)
  qed
qed

lemma sys_inv_complete:
  assumes inv: "sys_inv st"
  shows "sys_inv (sys_step hex2xy st (Complete i success err))"
proof (cases "i < length (ps_pending st)")
  case False
  then show ?thesis using inv by (simp add: sys_step_def)
next
  case True
  obtain cx r where p: "ps_pending st ! i = (cx, r)" by (cases "ps_pending st ! i")
  let ?rest = "remove_nth i (ps_pending st)"
  have rest: "set ?rest \<subseteq> set (ps_pending st)" by (rule set_remove_nth)
  show ?thesis
  proof (cases "ps_insts st cx")
    case None
    have "pending_live (ps_cache st) (ps_insts st) ?rest"
      using inv rest by (auto simp: sys_inv_def intro: pending_live_mono)
    then show ?thesis using inv True p None by (simp add: sys_step_def sys_inv_def)
  next
    case (Some ai)
    obtain c' ai' effs where cb: "inst_callback (ps_cache st) ai r success err = (c', ai', effs)"
      by (cases "inst_callback (ps_cache st) ai r success err")
    have c': "c' = fst (run_callback (ps_cache st) r success err)" using cb by (rule inst_callback_cache)
    have wf: "cache_wf c'" using inv c' by (simp add: sys_inv_def cache_wf_run_callback)
    have "cursor_ok ai" using inv Some by (auto simp: sys_inv_def intro: cursors_ok_D)
    with cb have cur: "cursors_ok ((ps_insts st)(cx \<mapsto> ai'))"
      using inv by (auto simp: sys_inv_def intro: cursors_ok_upd inst_callback_cursor)
    have pl: "pending_live c' ((ps_insts st)(cx \<mapsto> ai')) ?rest"
    proof (rule pending_live_mono)
      show "pending_live (ps_cache st) (ps_insts st) (ps_pending st)" using inv by (simp add: sys_inv_def)
    qed (use rest c' in auto)
    show ?thesis using True p Some cb wf cur pl inst_callback_no_dispatch [OF cb]
      by (simp add: sys_step_def sys_inv_def)
  qed
qed

lemma sys_inv_appear:
  assumes inv: "sys_inv st"
  shows "sys_inv (sys_step hex2xy st (Appear cx k s))"
proof (cases "inst_new (ps_cache st) cx k s")
  case (Inl e)
  then show ?thesis using inv by (simp add: sys_step_def sys_inv_def)
next
  case (Inr res)
  obtain ai effs where res: "res = (ai, effs)" by (cases res)
  have "cursors_ok ((ps_insts st)(cx \<mapsto> ai))"
    using inv Inr res by (auto simp: sys_inv_def intro: cursors_ok_upd inst_new_cursor)
  then show ?thesis using inv Inr res by (simp add: sys_step_def sys_inv_def pending_live_upd)
qed

lemma sys_inv_settings:
  assumes inv: "sys_inv st"
  shows "sys_inv (sys_step hex2xy st (ReceiveSettings cx s))"
proof (cases "ps_insts st cx")
  case None
  then show ?thesis using inv by (simp add: sys_step_def)
next
  case (Some ai)
  have "cursor_ok ai" using inv Some by (auto simp: sys_inv_def intro: cursors_ok_D)
  then have "cursors_ok ((ps_insts st)(cx \<mapsto> inst_set_settings ai s))"
    using inv by (auto simp: sys_inv_def intro: cursors_ok_upd inst_set_settings_cursor)
  then show ?thesis using inv Some by (simp add: sys_step_def sys_inv_def pending_live_upd)
qed

lemma sys_inv_new_cache:
  assumes inv: "sys_inv st"
  shows "sys_inv (sys_step hex2xy st (NewCache cx))"
proof (cases "ps_insts st cx")
  case None
  then show ?thesis using inv by (simp add: sys_step_def)
next
  case (Some ai)
  show ?thesis
  proof (cases "inst_new_cache (ps_cache st) ai")
    case (Inl e)
    then show ?thesis using inv Some by (simp add: sys_step_def sys_inv_def)
  next
    case (Inr res)
    obtain ai' effs where res: "res = (ai', effs)" by (cases res)
    have "cursor_ok ai" using inv Some by (auto simp: sys_inv_def intro: cursors_ok_D)
    then have "cursors_ok ((ps_insts st)(cx \<mapsto> ai'))"
      using inv Inr res by (auto simp: sys_inv_def intro: cursors_ok_upd inst_new_cache_cursor)
    then show ?thesis using inv Some Inr res by (simp add: sys_step_def sys_inv_def pending_live_upd)
  qed
qed

lemma sys_inv_refresh:
  assumes inv: "sys_inv st" and ok: "refresh_ok (ps_cache st) d objs"
  shows "sys_inv (sys_step hex2xy st (Refresh d objs))"
proof -
  have "pending_live (refresh (ps_cache st) d objs) (ps_insts st) (ps_pending st)"
    using inv refresh_ok_dom [OF ok] by (auto simp: sys_inv_def intro: pending_live_mono)
  then show ?thesis using inv ok by (simp add: sys_step_def sys_inv_def refresh_ok_def)
qed

lemma sys_inv_step: "sys_inv st \<Longrightarrow> enabled st ev \<Longrightarrow> sys_inv (sys_step hex2xy st ev)"
  by (cases ev)
     (simp_all add: enabled_def sys_inv_key_up sys_inv_complete sys_inv_appear sys_inv_settings
                    sys_inv_new_cache sys_inv_refresh)

lemma sys_inv_init: "cache_wf c \<Longrightarrow> sys_inv (init_state c)"
  by (simp add: init_state_def sys_inv_def pending_live_def cursors_ok_def)

lemma reachable_sys_inv: "reachable hex2xy st \<Longrightarrow> sys_inv st"
  by (induction rule: reachable.induct) (simp_all add: sys_inv_init sys_inv_step)

lemma sys_run_reachable:
  "sys_run hex2xy st evs = Some st' \<Longrightarrow> reachable hex2xy st \<Longrightarrow> reachable hex2xy st'"
  by (induction hex2xy st evs rule: sys_run.induct) (auto intro: reachable.step split: if_splits)

subsection \<open>Where in-flight requests come from\<close>

lemma color_key_up_typed:
  "color_on_key_up hex2xy c i ctx ins = Inr effs \<Longrightarrow> r \<in> set (dispatched effs) \<Longrightarrow> cmd_typed (req_cmd r)"
  by (auto simp: color_on_key_up_def make_request_def Let_def color_command_typed
           dest: key_up_guards_no_dispatch split: sum.splits option.splits prod.splits)

lemma cycle_key_up_typed:
  "cycle_on_key_up hex2xy c i ctx ins = (i', Inr effs) \<Longrightarrow> r \<in> set (dispatched effs) \<Longrightarrow>
   cmd_typed (req_cmd r)"
  by (auto simp: cycle_on_key_up_def make_request_def Let_def cycle_command_typed
           dest: key_up_guards_no_dispatch split: sum.splits option.splits prod.splits)

lemma inst_key_up_typed:
  "inst_key_up hex2xy c ai ctx arg = (ai', Inr effs) \<Longrightarrow> r \<in> set (dispatched effs) \<Longrightarrow>
   cmd_typed (req_cmd r)"
  using color_key_up_typed cycle_key_up_typed by (blast dest: inst_key_up_Inr)

text \<open>A step adds in-flight requests only by a key press, and only those its handler dispatched.\<close>

lemma pending_sys_step:
  assumes "p \<in> set (ps_pending (sys_step hex2xy st ev))"
  shows "p \<in> set (ps_pending st) \<or>
         (\<exists>cx ins ai ai' effs. ev = KeyUp cx ins \<and> ps_insts st cx = Some ai \<and>
            inst_key_up hex2xy (ps_cache st) ai cx ins = (ai', Inr effs) \<and> snd p \<in> set (dispatched effs))"
proof (cases ev)
  case (KeyUp cx ins)
  then show ?thesis using assms
    by (auto simp: sys_step_def split: option.splits prod.splits sum.splits)
next
  case (Complete i success err)
  then show ?thesis using assms set_remove_nth [of i "ps_pending st"]
    by (auto simp: sys_step_def Let_def dest: inst_callback_no_dispatch split: if_splits option.splits prod.splits)
qed (use assms in \<open>auto simp: sys_step_def split: option.splits prod.splits sum.splits\<close>)

lemma reachable_pending_typed_inv: "reachable hex2xy st \<Longrightarrow> pending_typed st"
proof (induction rule: reachable.induct)
  case (init c)
  then show ?case by (simp add: pending_typed_def init_state_def)
next
  case (step st ev)
  show ?case unfolding pending_typed_def
  proof
    fix p assume "p \<in> set (ps_pending (sys_step hex2xy st ev))"
    then show "cmd_typed (req_cmd (snd p))"
      using pending_sys_step step.IH inst_key_up_typed unfolding pending_typed_def by blast
  qed
qed

subsection \<open>Single steps of a cycle instance\<close>

lemma sys_run_Cons_enabled [simp]:
  "enabled st ev \<Longrightarrow> sys_run hex2xy st (ev # evs) = sys_run hex2xy (sys_step hex2xy st ev) evs"
  by simp

lemma remove_nth_append_length [simp]: "remove_nth (length xs) (xs @ y # ys) = xs @ ys"
  by (simp add: remove_nth_def)

text \<open>
  The definitions a concrete run unfolds; with them \<open>simp\<close> evaluates
  \<^const>\<open>sys_run\<close> on the example topology.
\<close>

lemmas run_defs = sys_step_def inst_new_def cycle_action_new_def color_action_new_def
  cycle_set_defaults_def color_set_defaults_def defaults_target_def deref_def index_of_def read_xy_def
  fits_capability_def char_at_def inst_key_up_def cycle_key_up_event_def js_in_operand_def color_key_up_event_def cycle_on_key_up_def color_on_key_up_def
  key_up_guards_def load_settings_def key_up_target_def js_nth_def make_request_def cycle_command_def
  color_command_def inst_callback_def cycle_callback_def run_callback_def xy_callback_def
  ct_callback_def set_xy_def set_ct_def remove_nth_def enabled_def init_state_def
  inst_new_cache_def cycle_new_cache_available_def color_new_cache_available_def

subsection \<open>Example runs\<close>

lemma ex_cycle_state_reachable: "reachable ex_hex2xy ex_cycle_state"
proof -
  have "sys_run ex_hex2xy (init_state ex_cache) [Appear ''ctx-2'' CycleKind (inst_settings ex_cycle)] =
          Some ex_cycle_state"
    by (simp add: run_defs Let_def cong: if_weak_cong)
  then show ?thesis using sys_run_reachable reachable.init [OF ex_cache_wf] by blast
qed

section \<open>Properties\<close>

subsection \<open>Invariants of every reachable state\<close>

text \<open>
  C11: in every reachable state the cursor of every cycle instance is at least the
  sentinel \<open>-1\<close>.
\<close>

theorem reachable_cursor:
  "reachable hex2xy st \<Longrightarrow> ps_insts st cx = Some (CycleInst i) \<Longrightarrow> -1 \<le> currentColor i"
  using reachable_sys_inv cursors_ok_D by (fastforce simp: sys_inv_def cursor_ok_def)

theorem reachable_cursor_witness: "-1 \<le> currentColor ex_cycle"
  using reachable_cursor [OF ex_cycle_state_reachable, of "''ctx-2''" ex_cycle] by simp

text \<open>
  C12: type preservation for requests: in every reachable state each in-flight
  request carries a command of the bridge's type, an XY pair or a temperature that
  is an integer (the result of \<open>Math.round\<close>) or a non-finite number; no
  fractional mired value is ever sent.
\<close>

theorem reachable_pending_typed:
  "reachable hex2xy st \<Longrightarrow> (cx, r) \<in> set (ps_pending st) \<Longrightarrow> cmd_typed (req_cmd r)"
  using reachable_pending_typed_inv by (fastforce simp: pending_typed_def)

theorem reachable_pending_typed_witness:
  "ps_pending (the (sys_run ex_hex2xy (init_state ex_cache)
      [Appear ''ctx-3'' CycleKind \<lparr>bridge = Some ''b-1'', light = Some ''l-2'', color = None, colors = Some [''2230'', ''#ff0000'']\<rparr>, KeyUp ''ctx-3'' Undefined])) =
     [(''ctx-3'', make_request ex_bridge Light 1 \<lparr>obj_id = ''2'', xy = None, ct = Some (Num 366)\<rparr> (SetTemperature (Num 482)) ''ctx-3'')] \<and>
   cmd_typed (SetTemperature (Num 482))"
proof -
  let ?evs = "[Appear ''ctx-3'' CycleKind \<lparr>bridge = Some ''b-1'', light = Some ''l-2'', color = None, colors = Some [''2230'', ''#ff0000'']\<rparr>, KeyUp ''ctx-3'' Undefined]"
  obtain st where run: "sys_run ex_hex2xy (init_state ex_cache) ?evs = Some st"
    and p: "ps_pending st = [(''ctx-3'', make_request ex_bridge Light 1 \<lparr>obj_id = ''2'', xy = None, ct = Some (Num 366)\<rparr> (SetTemperature (Num 482)) ''ctx-3'')]"
    by (simp add: run_defs Let_def kelvin_to_mired_def js_sub_def js_simps cong: if_weak_cong)
  have "reachable ex_hex2xy st" using sys_run_reachable [OF run reachable.init [OF ex_cache_wf]] .
  then have "cmd_typed (req_cmd (make_request ex_bridge Light 1 \<lparr>obj_id = ''2'', xy = None, ct = Some (Num 366)\<rparr> (SetTemperature (Num 482)) ''ctx-3''))"
    using reachable_pending_typed [of ex_hex2xy st "''ctx-3''"] p by simp
  then show ?thesis using run p by (simp add: make_request_def)
qed

text \<open>
  C13: in every reachable state, a press of a cycle instance whose configuration
  passes the checks and whose sequence is non-empty dispatches exactly one request,
  for the entry at \<open>cursor + 1\<close> (or the first entry after a wrap): it never reads
  past the end of the sequence, however many presses and completions came before.
\<close>

theorem reachable_cycle_press_dispatches:
  assumes "reachable hex2xy st" and "ps_insts st cx = Some (CycleInst i)"
    and "key_up_guards (ps_cache st) cx (load_settings i ins) = Inr (bc, l)"
    and "colors (load_settings i ins) = Some cs" and "cs \<noteq> []"
    and "key_up_target (ps_cache st) bc l = Inr (k, a, ob)"
  shows "\<exists>i'. cycle_on_key_up hex2xy (ps_cache st) i cx ins =
           (i', Inr [Dispatch (make_request bc k a ob
                   (cycle_command hex2xy (cs ! nat (next_index (currentColor i) (length cs)))) cx)])"
proof -
  have "-1 \<le> currentColor i"
    using reachable_sys_inv [OF assms(1)] assms(2) cursors_ok_D by (fastforce simp: sys_inv_def cursor_ok_def)
  then show ?thesis using cycle_key_up_dispatch [OF assms(3-6)] by blast
qed

theorem reachable_cycle_press_dispatches_witness:
  "\<exists>i'. cycle_on_key_up ex_hex2xy ex_cache ex_cycle ''ctx-2'' None =
     (i', Inr [Dispatch (make_request ex_bridge Light 0 \<lparr>obj_id = ''1'', xy = Some (1/2, 2/5), ct = None\<rparr>
            (cycle_command ex_hex2xy ''#ff0000'') ''ctx-2'')])"
proof -
  have g: "key_up_guards ex_cache ''ctx-2'' (load_settings ex_cycle None) = Inr (ex_bridge, ''l-1'')"
    by (simp add: key_up_guards_def load_settings_def)
  have t: "key_up_target ex_cache ex_bridge ''l-1'' = Inr (Light, 0, \<lparr>obj_id = ''1'', xy = Some (1/2, 2/5), ct = None\<rparr>)"
    by (rule ex_key_up_target_l1)
  show ?thesis
    using reachable_cycle_press_dispatches [OF ex_cycle_state_reachable, of "''ctx-2''" ex_cycle None ex_bridge
        "''l-1''" "[''#ff0000'', ''#00ff00'', ''#0000ff'']" Light 0
        "\<lparr>obj_id = ''1'', xy = Some (1/2, 2/5), ct = None\<rparr>"] g t
    by (simp add: load_settings_def next_index_def init_state_def)
qed

end
