(* ===== verification/Plugin_Scenarios.thy ===== *)
theory Plugin_Scenarios
  imports Plugin_System
begin

text \<open>
  Runs of the plugin that the specification describes in words: overlapping
  presses of a cycle key, a refresh whose defaulting throws, and the transport
  settling every in-flight request. Each is stated over \<^const>\<open>sys_step\<close> and
  \<^const>\<open>sys_run\<close> of \<open>Plugin_System\<close> for every state and instance the
  hypotheses describe, with a witness on the example topology.
\<close>

section \<open>Settling the in-flight requests\<close>

text \<open>
  The transport completing the in-flight requests one at a time, oldest first, all
  with the same outcome, until none is left. The recursion is not structural: a
  completion removes its request but queues whatever its callback dispatches, so
  it stops only because no callback of the two actions dispatches a request
  (\<open>inst_callback_no_dispatch\<close>).
\<close>

function settle :: "(string \<Rightarrow> xy) \<Rightarrow> bool \<Rightarrow> plugin_state \<Rightarrow> plugin_state" where
  "settle hex2xy success st =
     (if ps_pending st = [] then st
      else settle hex2xy success (sys_step hex2xy st (Complete 0 success '''')))"
  by pat_completeness auto

termination settle
  by (relation "measure (\<lambda>(hex2xy, success, st). length (ps_pending st))")
     (auto simp: sys_step_Complete_pending)

declare settle.simps [simp del]

abbreviation ex_two_presses :: plugin_state where
  "ex_two_presses \<equiv>
     sys_step ex_hex2xy (sys_step ex_hex2xy ex_cycle_state (KeyUp ''ctx-2'' Undefined)) (KeyUp ''ctx-2'' Undefined)"

section \<open>Lemmas\<close>

subsection \<open>Single steps of a cycle instance\<close>

lemma sys_step_key_up_cycle:
  assumes "ps_insts st cx = Some (CycleInst i)"
    and "cycle_key_up_event hex2xy (ps_cache st) i cx arg = (i1, Inr [Dispatch r])"
  shows "sys_step hex2xy st (KeyUp cx arg) =
           st\<lparr>ps_insts := (ps_insts st)(cx \<mapsto> CycleInst i1), ps_pending := ps_pending st @ [(cx, r)],
              ps_effects := ps_effects st @ [Dispatch r]\<rparr>"
  using assms by (simp add: sys_step_def inst_key_up_def)

lemma sys_step_complete_cycle:
  assumes "i < length (ps_pending st)" and "ps_pending st ! i = (cx, r)"
    and "ps_insts st cx = Some (CycleInst ci)"
    and "cycle_callback (ps_cache st) ci r success err = (c', ci', effs)"
  shows "sys_step hex2xy st (Complete i success err) =
           st\<lparr>ps_cache := c', ps_insts := (ps_insts st)(cx \<mapsto> CycleInst ci'),
              ps_pending := remove_nth i (ps_pending st), ps_effects := ps_effects st @ effs\<rparr>"
proof -
  have "inst_callback (ps_cache st) (CycleInst ci) r success err = (c', CycleInst ci', effs)"
    using assms(4) by (simp add: inst_callback_def)
  then have "dispatched effs = []" by (rule inst_callback_no_dispatch)
  then show ?thesis using assms by (simp add: sys_step_def inst_callback_def)
qed

section \<open>Properties\<close>

subsection \<open>Overlapping presses\<close>

text \<open>
  C20: two presses of a cycle key before the first request completes dispatch the
  same request twice (the cursor only moves in the callback), and when both
  succeed the cursor has moved by two: the code increments \<open>currentColor\<close> once
  per completion, where the specification says the cursor is advanced to the index
  that was dispatched; the next press therefore skips the entry after the one
  sent twice.
\<close>

theorem double_press_advances_twice:
  assumes inst: "ps_insts st cx = Some (CycleInst i)"
    and ku: "cycle_key_up_event hex2xy (ps_cache st) i cx arg = (i1, Inr [Dispatch r])"
    and n: "n = length (ps_pending st)"
  shows "\<exists>st' i2. sys_run hex2xy st [KeyUp cx arg, KeyUp cx arg, Complete n True e1, Complete n True e2] = Some st' \<and>
           ps_insts st' cx = Some (CycleInst i2) \<and> currentColor i2 = currentColor i1 + 2 \<and>
           ps_pending st' = ps_pending st \<and>
           ps_effects st' = ps_effects st @ [Dispatch r, Dispatch r]"
proof -
  let ?st1 = "sys_step hex2xy st (KeyUp cx arg)"
  have st1: "?st1 = st\<lparr>ps_insts := (ps_insts st)(cx \<mapsto> CycleInst i1), ps_pending := ps_pending st @ [(cx, r)],
                      ps_effects := ps_effects st @ [Dispatch r]\<rparr>"
    using inst ku by (rule sys_step_key_up_cycle)
  have ku2: "cycle_key_up_event hex2xy (ps_cache ?st1) i1 cx arg = (i1, Inr [Dispatch r])"
    using cycle_key_up_event_retry [OF ku] st1 by simp
  let ?st2 = "sys_step hex2xy ?st1 (KeyUp cx arg)"
  have st2: "?st2 = st\<lparr>ps_insts := (ps_insts st)(cx \<mapsto> CycleInst i1), ps_pending := ps_pending st @ [(cx, r), (cx, r)],
                      ps_effects := ps_effects st @ [Dispatch r, Dispatch r]\<rparr>"
    using sys_step_key_up_cycle [of ?st1 cx i1 hex2xy arg i1 r] ku2 st1 by simp
  obtain c1 i2 effs1 where cb1: "cycle_callback (ps_cache st) i1 r True e1 = (c1, i2, effs1)"
    by (cases "cycle_callback (ps_cache st) i1 r True e1")
  obtain c2 i3 effs2 where cb2: "cycle_callback c1 i2 r True e2 = (c2, i3, effs2)"
    by (cases "cycle_callback c1 i2 r True e2")
  have e1: "effs1 = []" and e2: "effs2 = []" using cb1 cb2
    by (auto simp: cycle_callback_def run_callback_def xy_callback_def ct_callback_def split: command.splits)
  have c2: "currentColor i3 = currentColor i1 + 2"
    using cycle_callback_success [OF cb1] cycle_callback_success [OF cb2] by simp
  let ?st3 = "sys_step hex2xy ?st2 (Complete n True e1)"
  have st3: "?st3 = st\<lparr>ps_cache := c1, ps_insts := (ps_insts st)(cx \<mapsto> CycleInst i2),
                       ps_pending := ps_pending st @ [(cx, r)], ps_effects := ps_effects st @ [Dispatch r, Dispatch r]\<rparr>"
    using sys_step_complete_cycle [of n ?st2 cx r i1 True e1 c1 i2 effs1 hex2xy] st2 n cb1 e1
    by (simp add: nth_append)
  have st4: "sys_step hex2xy ?st3 (Complete n True e2) =
               st\<lparr>ps_cache := c2, ps_insts := (ps_insts st)(cx \<mapsto> CycleInst i3),
                  ps_effects := ps_effects st @ [Dispatch r, Dispatch r]\<rparr>"
    using sys_step_complete_cycle [of n ?st3 cx r i2 True e2 c2 i3 effs2 hex2xy] st3 n cb2 e2
    by (simp add: nth_append remove_nth_def)
  show ?thesis using st1 st2 st3 st4 n c2 by (simp add: enabled_def)
qed

theorem double_press_advances_twice_witness:
  "\<exists>st' i2. sys_run ex_hex2xy ex_cycle_state
       [KeyUp ''ctx-2'' Undefined, KeyUp ''ctx-2'' Undefined, Complete 0 True ''ok'', Complete 0 True ''ok''] = Some st' \<and>
     ps_insts st' ''ctx-2'' = Some (CycleInst i2) \<and> currentColor i2 = 1 \<and> ps_pending st' = [] \<and>
     ps_effects st' = [Dispatch (make_request ex_bridge Light 0 \<lparr>obj_id = ''1'', xy = Some (1/2, 2/5), ct = None\<rparr> (SetXY (1, 0)) ''ctx-2''), Dispatch (make_request ex_bridge Light 0 \<lparr>obj_id = ''1'', xy = Some (1/2, 2/5), ct = None\<rparr> (SetXY (1, 0)) ''ctx-2'')]"
proof -
  have ku: "cycle_key_up_event ex_hex2xy (ps_cache ex_cycle_state) ex_cycle ''ctx-2'' Undefined =
              (ex_cycle, Inr [Dispatch (make_request ex_bridge Light 0 \<lparr>obj_id = ''1'', xy = Some (1/2, 2/5), ct = None\<rparr> (SetXY (1, 0)) ''ctx-2'')])"
    by (simp add: init_state_def cycle_key_up_event_def js_in_operand_def cycle_on_key_up_def key_up_guards_def
                  load_settings_def key_up_target_def index_of_def js_nth_def cycle_command_def)
  show ?thesis
    using double_press_advances_twice [of ex_cycle_state "''ctx-2''" ex_cycle ex_hex2xy Undefined ex_cycle
        "make_request ex_bridge Light 0 \<lparr>obj_id = ''1'', xy = Some (1/2, 2/5), ct = None\<rparr> (SetXY (1, 0)) ''ctx-2''" 0 "''ok''" "''ok''"] ku
    by (simp add: init_state_def)
qed

subsection \<open>Defaulting on a cache refresh\<close>

text \<open>
  C22: when cycle defaulting throws (an empty sequence on a known target), the
  refresh handler stops there: the instance keeps its settings, nothing is saved,
  and the callback the host passed to \<open>newCacheAvailable\<close> is never invoked,
  although the specification promises it after defaulting.
\<close>

theorem new_cache_error_skips_callback:
  assumes "ps_insts st cx = Some (CycleInst i)"
    and "defaults_target (ps_cache st) (inst_settings i) = Some lc" and "colors (inst_settings i) = Some []"
  shows "sys_step hex2xy st (NewCache cx) = st\<lparr>ps_errors := ps_errors st @ [TypeError ''charAt'']\<rparr>"
  using assms
  by (simp add: sys_step_def inst_new_cache_def cycle_new_cache_available_def cycle_set_defaults_def)

theorem new_cache_error_skips_callback_witness:
  "sys_step ex_hex2xy (init_state ex_cache\<lparr>ps_insts := [''ctx-2'' \<mapsto>
       CycleInst (ex_cycle\<lparr>inst_settings := (inst_settings ex_cycle)\<lparr>colors := Some []\<rparr>\<rparr>)]\<rparr>) (NewCache ''ctx-2'') =
   init_state ex_cache\<lparr>ps_insts := [''ctx-2'' \<mapsto>
       CycleInst (ex_cycle\<lparr>inst_settings := (inst_settings ex_cycle)\<lparr>colors := Some []\<rparr>\<rparr>)],
     ps_errors := [TypeError ''charAt'']\<rparr>"
  using new_cache_error_skips_callback [of "init_state ex_cache\<lparr>ps_insts := [''ctx-2'' \<mapsto>
       CycleInst (ex_cycle\<lparr>inst_settings := (inst_settings ex_cycle)\<lparr>colors := Some []\<rparr>\<rparr>)]\<rparr>" "''ctx-2''"
      "ex_cycle\<lparr>inst_settings := (inst_settings ex_cycle)\<lparr>colors := Some []\<rparr>\<rparr>"
      "Some \<lparr>obj_id = ''1'', xy = Some (1/2, 2/5), ct = None\<rparr>" ex_hex2xy]
  by (simp add: init_state_def defaults_target_def deref_def index_of_def)

subsection \<open>Settling\<close>

text \<open>
  C23: settling terminates: from any reachable state, completing the in-flight
  requests one at a time, oldest first, is a run of exactly as many completions as
  there were requests, it ends with no request in flight, and the state it reaches
  is reachable. The transport queues every request a callback sends, so this holds
  because the completion callbacks of \<open>colorAction.js\<close> (lines 85--93,
  106--114) and \<open>cycleAction.js\<close> record state, log and alert but never
  retry or send.
\<close>

theorem settle_terminates:
  assumes "reachable hex2xy st"
  shows "sys_run hex2xy st (replicate (length (ps_pending st)) (Complete 0 success '''')) =
           Some (settle hex2xy success st) \<and>
         ps_pending (settle hex2xy success st) = [] \<and> reachable hex2xy (settle hex2xy success st)"
  using assms
proof (induction hex2xy success st rule: settle.induct)
  case (1 hex2xy success st)
  show ?case
  proof (cases "ps_pending st = []")
    case True
    then show ?thesis using "1.prems" by (simp add: settle.simps)
  next
    case False
    let ?st' = "sys_step hex2xy st (Complete 0 success '''')"
    have en: "enabled st (Complete 0 success '''')" using False by (simp add: enabled_def)
    have len: "length (ps_pending ?st') = length (ps_pending st) - 1"
      using False by (simp add: sys_step_Complete_pending)
    have r': "reachable hex2xy ?st'" using reachable.step [OF "1.prems" en] .
    have s: "settle hex2xy success st = settle hex2xy success ?st'"
      using False by (simp add: settle.simps)
    obtain n where n: "length (ps_pending st) = Suc n" using False by (cases "ps_pending st") auto
    show ?thesis using "1.IH" [OF False r'] en len s n by simp
  qed
qed

theorem settle_terminates_witness:
  "length (ps_pending ex_two_presses) = 2 \<and> ps_pending (settle ex_hex2xy True ex_two_presses) = []"
proof -
  have r: "reachable ex_hex2xy ex_two_presses"
    using reachable.step [OF reachable.step [OF ex_cycle_state_reachable]] by (simp add: enabled_def)
  have "length (ps_pending ex_two_presses) = 2" by (simp add: run_defs Let_def)
  then show ?thesis using settle_terminates [OF r, of True] by simp
qed

end
