(* ===== verification/Spec2Isabelle.thy ===== *)
theory Spec2Isabelle
  imports Plugin_Scenarios
begin

text \<open>
  \<^bold>\<open>A verification model of the Philips Hue Stream Deck plugin's action logic.\<close>

  The sources are two files under
  \<open>src/Sources/com.elgato.philips-hue.sdPlugin/plugin/js/\<close>:
  \<open>colorAction.js\<close> (the single-colour action: one colour or temperature per key)
  and \<open>cycleAction.js\<close> (the cycling action: a sequence of colours or temperatures
  stepped through by a cursor \<open>currentColor\<close>). Each action validates its stored
  settings against the topology cache \<open>cache.data\<close> (bridges, lights, groups),
  repairs settings that do not fit the target's capability (\<open>setDefaults\<close>, run by
  the constructor and by \<open>newCacheAvailable\<close> on every cache refresh), converts the
  configured value into a bridge command (hex colour via \<open>Bridge.hex2xy\<close>, numeric
  value to mired) and sends it; the asynchronous completion callback records the new
  state in the cached descriptor and, for the cycle action, advances the cursor.

  \<^bold>\<open>Theories.\<close>
  \<^item> \<open>Hue_Prelude\<close>: rule collections, the model's type names (\<open>ctx\<close>, \<open>addr\<close>,
    \<open>xy\<close>), rounding of rationals, and small list and sum lemmas.
  \<^item> \<open>JS_Semantics\<close>: the JavaScript the handlers rely on. Numbers are
    \<^typ>\<open>js_number\<close> (a finite value as an exact rational, the two infinities and
    \<open>NaN\<close>; IEEE rounding of finite values is not modelled, which is exact for the
    integral and decimal inputs the actions handle); \<open>+ - * /\<close>, \<open>Math.round\<close>,
    \<open>ToNumber\<close> on strings (white space, signs, decimals, exponents, \<open>Infinity\<close>,
    \<open>0x/0o/0b\<close>, otherwise \<open>NaN\<close>), \<open>indexOf\<close>, \<open>charAt\<close>, array reads (\<^const>\<open>None\<close>
    for \<open>undefined\<close>), the \<open>TypeError\<close> of reading a property of \<open>undefined\<close>
    and of the \<open>in\<close> operator on a non-object (\<^const>\<open>js_in_operand\<close>), and an
    argument that is \<open>undefined\<close>, \<open>null\<close> or an object (\<^typ>\<open>'a js_arg\<close>).
  \<^item> \<open>Color_Codec\<close>: the two temperature conversions, \<open>colorAction.js\<close> lines
    99--103 (\<^const>\<open>percent_to_mired\<close>) and \<open>cycleAction.js\<close> lines 106--116
    (\<^const>\<open>kelvin_to_mired\<close>).
  \<^item> \<open>Topology_Cache\<close>: the cache as bridge data over an explicit heap of
    descriptors (the callbacks write through the reference the closure captured), the
    two writes \<^const>\<open>set_xy\<close>/\<^const>\<open>set_ct\<close>, a refresh, and well-formedness.
  \<^item> \<open>Action_Base\<close>: what both files repeat: the settings, the effects a handler
    has (log, alert, dispatch of a request, save of settings, host callback), the
    guard chain of \<open>onKeyUp\<close> (\<^const>\<open>key_up_guards\<close>), the light-or-group choice
    by \<open>indexOf('l')\<close> (\<^const>\<open>key_up_target\<close>), the request and its completion
    callbacks (\<^const>\<open>run_callback\<close>), and the guard chain of \<open>setDefaults\<close> with
    its own choice by \<open>indexOf('l-')\<close> (\<^const>\<open>defaults_target\<close>).
  \<^item> \<open>Color_Action\<close> and \<open>Cycle_Action\<close>: each action's constructor,
    \<open>onKeyUp\<close>, \<open>newCacheAvailable\<close> and \<open>setDefaults\<close>, one definition each,
    with every early return and every throw as a branch; the cycle action's instance
    extends the base record by \<open>currentColor\<close>, and \<^const>\<open>cycle_callback\<close> is the
    cursor-advancing callback. The entry points \<^const>\<open>color_key_up_event\<close> and
    \<^const>\<open>cycle_key_up_event\<close> model the settings tests \<open>== undefined\<close> and
    \<open>=== undefined\<close> on an \<open>undefined\<close>, \<open>null\<close> or object argument.
  \<^item> \<open>Plugin_System\<close>: the host around the actions (\<open>main.js\<close>, not under
    \<open>src/\<close>, modelled from the specification): a step function over the plugin state
    (cache, instances per context, in-flight requests, effects, thrown errors) for the
    events appear, settings, key up, completion of any in-flight request, refresh and
    \<open>newCacheAvailable\<close>, and the inductive set of reachable states. Every request
    a handler dispatches, a key press or a completion callback, joins the in-flight
    requests.
  \<^item> \<open>Plugin_Scenarios\<close>: runs of that model the specification describes in
    words: overlapping presses, a refresh whose defaulting throws, and
    \<^const>\<open>settle\<close>, the transport completing every in-flight request.

  Handlers return \<open>js_error + result\<close>: \<^const>\<open>Inl\<close> is a thrown \<open>TypeError\<close>, and
  what a handler did before throwing (the cycle action's cursor reset) is kept.
  \<open>Bridge.hex2xy\<close> is a parameter of every handler; examples use stand-ins.

  \<^bold>\<open>What is proved.\<close>
  \<^item> Key presses: a press with a missing or unknown bridge, target, colour or
    sequence logs, alerts and sends nothing; a valid one sends exactly one request to
    the configured target with the converted value and a callback bound to the
    descriptor. The cycle action sends entries \<open>0, 1, 2, \<dots>\<close> modulo the length
    when each request succeeds, wraps after the last entry, never reads past the end
    from any cursor \<open>\<ge> -1\<close>, and resends the same entry after a failure; from any
    such cursor, \<open>length\<close> successful presses dispatch every entry (liveness,
    proved by induction over \<^const>\<open>cycle_press_run\<close> with one shared step lemma), and
    one press with its success refines the specification's rule ``cursor advanced to
    the dispatched index'' (\<^const>\<open>next_index\<close>).
  \<^item> Callbacks: success records exactly the dispatched state in the captured
    descriptor, failure logs and alerts and changes nothing.
  \<^item> Defaulting: no-op for an unknown target; keeps a fitting value; otherwise
    installs the capability's default and saves it; its result always fits and it is
    idempotent. Where \<open>'#'\<close> occurs at most at the front of a value, the
    defaulting test (\<open>charAt(0)\<close>) and the key-up test (\<open>indexOf\<close>) are
    equivalent.
  \<^item> Codec: ranges \<open>[153, 500]\<close> mired on the nominal inputs, monotonicity.
  \<^item> Whole plugin, by rule induction over reachable states: every cursor is
    \<open>\<ge> -1\<close>, and hence every valid cycle press dispatches; every in-flight request
    carries a well-typed command (a temperature is an integer or non-finite, never a
    fractional mired value). Completing the in-flight requests one at a time
    terminates with none left, after exactly as many completions, because no
    completion callback sends a request. (The invariant \<^const>\<open>sys_inv\<close> also
    carries cache well-formedness and liveness of in-flight references; these are
    conditions of the explicit-heap model, used in its proofs, not properties
    claimed of the code.)
  \<^item> Divergences from the specification, each proved: the \<open>'l'\<close> and \<open>'l-'\<close>
    discriminants throw for some identifiers; a non-numeric value is sent as \<open>NaN\<close>;
    a value with a \<open>'#'\<close> after its first character passes defaulting as a
    temperature but is sent as a colour;
    an empty sequence throws in \<open>onKeyUp\<close> and in \<open>setDefaults\<close>, and the latter
    suppresses the refresh callback; overlapping presses resend one entry and move
    the cursor by two; a sequence whose first entry is a temperature and a later
    one a colour changes a temperature-only descriptor into a colour-capable one at
    run time. The comments of the cycle action's \<open>setDefaults\<close> (``white'')
    disagree with the values it sets; that and the other findings (a completion
    after a refresh writes to the old descriptor, a \<open>null\<close> settings argument
    throws in the cycle action only) are listed in the project manifest.

  \<^bold>\<open>Loops and fuel.\<close> The handlers have no loops. The only recursions are
  structural (\<^const>\<open>sys_run\<close> over a list of events, \<^const>\<open>cycle_press_run\<close> over
  a number of presses, the digit folds of \<open>ToNumber\<close>), except
  \<^const>\<open>settle\<close>, a \<^theory_text>\<open>function\<close> whose termination is proved with the
  measure ``number of requests in flight''. A completion removes its request and
  queues what its callback dispatches, so the measure drops by one only because the
  callbacks of both actions dispatch nothing (\<open>inst_callback_no_dispatch\<close>); a
  callback that retried would make the proof fail. No fuel is needed and every
  definition is total.

  \<^bold>\<open>Not modelled.\<close> The transport (\<open>Bridge\<close>, \<open>Light\<close>, \<open>Group\<close>, network
  requests), \<open>Bridge.hex2xy\<close>, the discovery and population of the cache
  (\<open>cache.js\<close>), the property inspector, \<open>willDisappear\<close>, and the host's
  logging and persistence beyond the effects the handlers issue: these are outside
  \<open>src/\<close>, and the sources only call them, so no more of them can be modelled from
  the code. The remaining source lines outside the map are the file headers,
  comments and the closing braces.
\<close>

end
